theory Spec2Isabelle
  imports Complex_Main "HOL-Library.Word" "HOL-Library.AList"
begin

unbundle bit_operations_syntax

section \<open>Values sent over the channels\<close>

text \<open>
  The host's dynamically typed value (\<^verbatim>\<open>FlValue\<close> on one platform,
  \<^verbatim>\<open>flutter::EncodableValue\<close> on the other). An event is a map from field names to
  values. A \<^verbatim>\<open>double\<close> is a \<open>real\<close>: every double the decoders build is a small
  integer or a 16-bit integer divided by 120, and no property below depends on rounding.
\<close>

datatype fl_value =
    FlInt int | FlBool bool | FlFloat real | FlString string | FlList "fl_value list"
  | FlMap "(string \<times> fl_value) list"

type_synonym fl_map = "(string \<times> fl_value) list"

text \<open>
  \<^verbatim>\<open>fl_value_set_string_take(map, key, value)\<close> and \<^verbatim>\<open>event[key] = value\<close>: the entry
  for the key is replaced if there is one, added otherwise. \<^verbatim>\<open>fl_value_remove\<close> drops
  the entry for the key. (A \<^verbatim>\<open>std::map\<close> iterates in key order; the order of the
  entries is not part of any property here.)
\<close>

definition fl_value_set_string_take :: "fl_map \<Rightarrow> string \<Rightarrow> fl_value \<Rightarrow> fl_map" where
  "fl_value_set_string_take m key v = AList.update key v m"

definition fl_value_remove :: "fl_map \<Rightarrow> string \<Rightarrow> fl_map" where
  "fl_value_remove m key = AList.delete key m"

definition fl_value_append_take :: "fl_value list \<Rightarrow> fl_value \<Rightarrow> fl_value list" where
  "fl_value_append_take xs v = xs @ [v]"

text \<open>
  The field names present in an event, the value of one field, and the \<open>key\<close> fields
  of a list of events.
\<close>

definition field_names :: "fl_map \<Rightarrow> string set" where
  "field_names m = set (map fst m)"

definition field_of :: "fl_map \<Rightarrow> string \<Rightarrow> fl_value option" where
  "field_of m key = map_of m key"

definition key_fields :: "fl_map list \<Rightarrow> fl_value option list" where
  "key_fields events = map (\<lambda>event. field_of event ''key'') events"

text \<open>
  Decimal rendering of an unsigned number, as \<^verbatim>\<open>%lu\<close> and \<^verbatim>\<open>std::to_string\<close> print
  it, and the reading of such a string back.
\<close>

fun to_string :: "nat \<Rightarrow> string" where
  "to_string n =
     (if n < 10 then [char_of (48 + n)]
      else to_string (n div 10) @ [char_of (48 + n mod 10)])"

declare to_string.simps [simp del]

definition from_string :: "string \<Rightarrow> nat" where
  "from_string ds = foldl (\<lambda>acc c. 10 * acc + (of_char c - 48)) 0 ds"

section \<open>Kernel-stream platform (linux/input_capture_plugin.cc): capture lifecycle\<close>

text \<open>
  The plugin object, field by field as \<^verbatim>\<open>struct _InputCapturePlugin\<close> declares it.
  A pointer is a \<open>nat option\<close> (\<open>None\<close> is \<^verbatim>\<open>nullptr\<close>), an XID and a thread handle are
  \<open>nat\<close> (XID \<open>0\<close> is "no context"). The channels are owned by the host and not modelled;
  \<open>event_handler\<close> only matters through its null test in \<^verbatim>\<open>send_event_to_dart\<close>.
\<close>

record InputCapturePlugin =
  event_handler :: "nat option"
  display :: "nat option"
  record_display :: "nat option"
  record_context :: nat
  record_thread :: nat
  is_capturing :: bool
  thread_running :: bool

text \<open>
  The operating system's side. \<open>held\<close> lists the capture resources that have been
  acquired and not yet released, most recent first; \<open>calls\<close> is the sequence of library
  calls made so far, each with its arguments and, where it has one, its result.
\<close>

datatype resource = Display nat | Range nat | Context nat | Thread nat

datatype x_call =
    Call_XOpenDisplay "nat option"
  | Call_XRecordAllocRange "nat option"
  | Call_XRecordCreateContext nat nat
  | Call_XFree nat
  | Call_pthread_create int nat
  | Call_XRecordDisableContext "nat option" nat
  | Call_XRecordFreeContext "nat option" nat
  | Call_pthread_join nat
  | Call_XCloseDisplay nat

record os =
  held :: "resource list"
  calls :: "x_call list"

text \<open>
  What the library calls of one \<^verbatim>\<open>start_capture\<close> / \<^verbatim>\<open>method_call_cb\<close> return:
  the pointer from \<^verbatim>\<open>XOpenDisplay\<close> and \<^verbatim>\<open>XRecordAllocRange\<close>, the XID from
  \<^verbatim>\<open>XRecordCreateContext\<close>, the return code of \<^verbatim>\<open>pthread_create\<close> with the thread
  handle it stores on success, and the answer of \<^verbatim>\<open>XRecordQueryVersion\<close>.
\<close>

record x_outcomes =
  XOpenDisplay_result :: "nat option"
  XRecordAllocRange_result :: "nat option"
  XRecordCreateContext_result :: nat
  pthread_create_result :: int
  pthread_create_thread :: nat
  XRecordQueryVersion_result :: bool

definition XOpenDisplay :: "nat option \<Rightarrow> os \<Rightarrow> os" where
  "XOpenDisplay r w =
     w\<lparr>held := (case r of None \<Rightarrow> held w | Some d \<Rightarrow> Display d # held w),
       calls := calls w @ [Call_XOpenDisplay r]\<rparr>"

definition XRecordAllocRange :: "nat option \<Rightarrow> os \<Rightarrow> os" where
  "XRecordAllocRange r w =
     w\<lparr>held := (case r of None \<Rightarrow> held w | Some a \<Rightarrow> Range a # held w),
       calls := calls w @ [Call_XRecordAllocRange r]\<rparr>"

definition XRecordCreateContext :: "nat \<Rightarrow> nat \<Rightarrow> os \<Rightarrow> os" where
  "XRecordCreateContext d r w =
     w\<lparr>held := (if r = 0 then held w else Context r # held w),
       calls := calls w @ [Call_XRecordCreateContext d r]\<rparr>"

definition XFree :: "nat \<Rightarrow> os \<Rightarrow> os" where
  "XFree a w = w\<lparr>held := remove1 (Range a) (held w), calls := calls w @ [Call_XFree a]\<rparr>"

definition pthread_create :: "int \<Rightarrow> nat \<Rightarrow> os \<Rightarrow> os" where
  "pthread_create ret t w =
     w\<lparr>held := (if ret = 0 then Thread t # held w else held w),
       calls := calls w @ [Call_pthread_create ret t]\<rparr>"

definition XRecordDisableContext :: "nat option \<Rightarrow> nat \<Rightarrow> os \<Rightarrow> os" where
  "XRecordDisableContext d c w = w\<lparr>calls := calls w @ [Call_XRecordDisableContext d c]\<rparr>"

definition XRecordFreeContext :: "nat option \<Rightarrow> nat \<Rightarrow> os \<Rightarrow> os" where
  "XRecordFreeContext d c w =
     w\<lparr>held := remove1 (Context c) (held w),
       calls := calls w @ [Call_XRecordFreeContext d c]\<rparr>"

definition pthread_join :: "nat \<Rightarrow> os \<Rightarrow> os" where
  "pthread_join t w =
     w\<lparr>held := remove1 (Thread t) (held w), calls := calls w @ [Call_pthread_join t]\<rparr>"

definition XCloseDisplay :: "nat \<Rightarrow> os \<Rightarrow> os" where
  "XCloseDisplay d w =
     w\<lparr>held := remove1 (Display d) (held w), calls := calls w @ [Call_XCloseDisplay d]\<rparr>"

text \<open>
  \<^verbatim>\<open>start_capture\<close>, branch by branch. The function returns nothing; its caller reads
  \<open>is_capturing\<close> afterwards. On a failed \<^verbatim>\<open>pthread_create\<close> the thread handle is left
  as it was.
\<close>

fun start_capture ::
  "x_outcomes \<Rightarrow> InputCapturePlugin \<times> os \<Rightarrow> InputCapturePlugin \<times> os" where
  "start_capture env (self, w) =
     (if is_capturing self then (self, w)
      else
        let self1 = self\<lparr>record_display := XOpenDisplay_result env\<rparr>;
            w1 = XOpenDisplay (XOpenDisplay_result env) w
        in (case record_display self1 of
              None \<Rightarrow> (self1, w1)
            | Some d \<Rightarrow>
                (let w2 = XRecordAllocRange (XRecordAllocRange_result env) w1
                 in (case XRecordAllocRange_result env of
                       None \<Rightarrow> (self1\<lparr>record_display := None\<rparr>, XCloseDisplay d w2)
                     | Some range_ptr \<Rightarrow>
                         (let self2 = self1\<lparr>record_context := XRecordCreateContext_result env\<rparr>;
                              w3 = XRecordCreateContext d (XRecordCreateContext_result env) w2;
                              w4 = XFree range_ptr w3
                          in if record_context self2 = 0
                             then (self2\<lparr>record_display := None\<rparr>, XCloseDisplay d w4)
                             else
                               (let ret = pthread_create_result env;
                                    w5 = pthread_create ret (pthread_create_thread env) w4;
                                    self3 = (if ret = 0
                                             then self2\<lparr>record_thread := pthread_create_thread env\<rparr>
                                             else self2)
                                in if ret \<noteq> 0
                                   then (self3\<lparr>record_display := None, record_context := 0\<rparr>,
                                         XCloseDisplay d
                                           (XRecordFreeContext (Some d) (record_context self3) w5))
                                   else (self3\<lparr>is_capturing := True, thread_running := True\<rparr>,
                                         w5)))))))"

text \<open>
  \<^verbatim>\<open>stop_capture\<close>: the statements in the order the source has them. The disable and
  free calls go through \<^verbatim>\<open>self->display\<close>, the close through \<^verbatim>\<open>self->record_display\<close>.
\<close>

fun stop_capture :: "InputCapturePlugin \<times> os \<Rightarrow> InputCapturePlugin \<times> os" where
  "stop_capture (self, w) =
     (if \<not> is_capturing self then (self, w)
      else
        let self1 = self\<lparr>is_capturing := False, thread_running := False\<rparr>;
            (self2, w2) =
              (if record_context self1 \<noteq> 0
               then (self1\<lparr>record_context := 0\<rparr>,
                     XRecordFreeContext (display self1) (record_context self1)
                       (XRecordDisableContext (display self1) (record_context self1) w))
               else (self1, w));
            w3 = pthread_join (record_thread self2) w2
        in (case record_display self2 of
              Some d \<Rightarrow> (self2\<lparr>record_display := None\<rparr>, XCloseDisplay d w3)
            | None \<Rightarrow> (self2, w3)))"

text \<open>
  \<^verbatim>\<open>input_capture_plugin_init\<close> (the object is zero-filled before it runs); the argument
  is what \<^verbatim>\<open>XOpenDisplay\<close> returned for the query connection. Registration then stores
  the stream handler it created.
\<close>

definition input_capture_plugin_init :: "nat option \<Rightarrow> InputCapturePlugin" where
  "input_capture_plugin_init dpy =
     \<lparr>event_handler = None, display = dpy, record_display = None, record_context = 0,
      record_thread = 0, is_capturing = False, thread_running = False\<rparr>"

definition input_capture_plugin_register_with_registrar ::
  "nat option \<Rightarrow> nat option \<Rightarrow> InputCapturePlugin" where
  "input_capture_plugin_register_with_registrar dpy handler =
     (input_capture_plugin_init dpy)\<lparr>event_handler := handler\<rparr>"

definition os_init :: os where
  "os_init = \<lparr>held = [], calls = []\<rparr>"

text \<open>The method channel: the five method names, anything else is not implemented.\<close>

datatype method_response = Success fl_value | NotImplemented

definition method_call_cb ::
  "x_outcomes \<Rightarrow> string \<Rightarrow> InputCapturePlugin \<times> os \<Rightarrow>
     method_response \<times> InputCapturePlugin \<times> os" where
  "method_call_cb env method s =
     (if method = ''startCapture'' then
        (let s' = start_capture env s in (Success (FlBool (is_capturing (fst s'))), s'))
      else if method = ''stopCapture'' then
        (let s' = stop_capture s in (Success (FlBool True), s'))
      else if method = ''isCapturing'' then (Success (FlBool (is_capturing (fst s))), s)
      else if method = ''checkPermissions'' then
        (Success (FlMap [(''x11_record'', FlBool (XRecordQueryVersion_result env))]), s)
      else if method = ''requestPermissions'' then
        (Success (FlBool (XRecordQueryVersion_result env)), s)
      else (NotImplemented, s))"

section \<open>Hook-callback platform (windows/runner/input_capture_plugin.cpp): capture lifecycle\<close>

text \<open>
  The members of \<^verbatim>\<open>class InputCapturePlugin\<close> that the capture path reads or writes. A
  member \<^verbatim>\<open>name_\<close> of the class is written \<open>name'\<close> here. A hook handle and the
  event sink are pointers: \<open>nat option\<close>, \<open>None\<close> for \<^verbatim>\<open>nullptr\<close>.
\<close>

record WinPlugin =
  event_sink' :: "nat option"
  keyboard_hook' :: "nat option"
  mouse_hook' :: "nat option"
  is_capturing' :: bool

datatype hook_kind = WH_KEYBOARD_LL | WH_MOUSE_LL

datatype hook = Hook hook_kind nat

datatype win_call =
    Call_SetWindowsHookEx hook_kind "nat option"
  | Call_UnhookWindowsHookEx nat

text \<open>
  The system's side: \<open>hooks\<close> are the installed hooks not yet removed, most recent first;
  \<open>win_calls\<close> the calls made so far. Removing a hook takes the handle only and
  removes the one hook installed under it.
\<close>

record win_os =
  hooks :: "hook list"
  win_calls :: "win_call list"

record win_outcomes =
  keyboard_SetWindowsHookEx_result :: "nat option"
  mouse_SetWindowsHookEx_result :: "nat option"

definition SetWindowsHookEx :: "hook_kind \<Rightarrow> nat option \<Rightarrow> win_os \<Rightarrow> win_os" where
  "SetWindowsHookEx k r w =
     w\<lparr>hooks := (case r of None \<Rightarrow> hooks w | Some h \<Rightarrow> Hook k h # hooks w),
       win_calls := win_calls w @ [Call_SetWindowsHookEx k r]\<rparr>"

fun unhook :: "nat \<Rightarrow> hook list \<Rightarrow> hook list" where
  "unhook h [] = []"
| "unhook h (Hook k h' # hs) = (if h' = h then hs else Hook k h' # unhook h hs)"

definition UnhookWindowsHookEx :: "nat \<Rightarrow> win_os \<Rightarrow> win_os" where
  "UnhookWindowsHookEx h w =
     w\<lparr>hooks := unhook h (hooks w), win_calls := win_calls w @ [Call_UnhookWindowsHookEx h]\<rparr>"

text \<open>\<^verbatim>\<open>StartCapture\<close> returns its \<^verbatim>\<open>bool\<close> together with the updated object.\<close>

fun StartCapture ::
  "win_outcomes \<Rightarrow> WinPlugin \<times> win_os \<Rightarrow> bool \<times> WinPlugin \<times> win_os" where
  "StartCapture env (self, w) =
     (if is_capturing' self then (True, self, w)
      else
        let self1 = self\<lparr>keyboard_hook' := keyboard_SetWindowsHookEx_result env\<rparr>;
            w1 = SetWindowsHookEx WH_KEYBOARD_LL (keyboard_SetWindowsHookEx_result env) w
        in (case keyboard_hook' self1 of
              None \<Rightarrow> (False, self1, w1)
            | Some kh \<Rightarrow>
                (let self2 = self1\<lparr>mouse_hook' := mouse_SetWindowsHookEx_result env\<rparr>;
                     w2 = SetWindowsHookEx WH_MOUSE_LL (mouse_SetWindowsHookEx_result env) w1
                 in (case mouse_hook' self2 of
                       None \<Rightarrow>
                         (False, self2\<lparr>keyboard_hook' := None\<rparr>, UnhookWindowsHookEx kh w2)
                     | Some mh \<Rightarrow> (True, self2\<lparr>is_capturing' := True\<rparr>, w2)))))"

fun StopCapture :: "WinPlugin \<times> win_os \<Rightarrow> WinPlugin \<times> win_os" where
  "StopCapture (self, w) =
     (if \<not> is_capturing' self then (self, w)
      else
        let (self1, w1) =
              (case keyboard_hook' self of
                 Some kh \<Rightarrow> (self\<lparr>keyboard_hook' := None\<rparr>, UnhookWindowsHookEx kh w)
               | None \<Rightarrow> (self, w));
            (self2, w2) =
              (case mouse_hook' self1 of
                 Some mh \<Rightarrow> (self1\<lparr>mouse_hook' := None\<rparr>, UnhookWindowsHookEx mh w1)
               | None \<Rightarrow> (self1, w1))
        in (self2\<lparr>is_capturing' := False\<rparr>, w2))"

text \<open>The constructor's member initialisers; the sink pointer starts empty.\<close>

definition WinPlugin_init :: WinPlugin where
  "WinPlugin_init =
     \<lparr>event_sink' = None, keyboard_hook' = None, mouse_hook' = None, is_capturing' = False\<rparr>"

definition win_os_init :: win_os where
  "win_os_init = \<lparr>hooks = [], win_calls = []\<rparr>"

text \<open>
  \<^verbatim>\<open>CheckPermissions\<close>, \<^verbatim>\<open>RequestPermissions\<close> and \<^verbatim>\<open>HandleMethodCall\<close>.
\<close>

definition CheckPermissions :: "(string \<times> fl_value) list" where
  "CheckPermissions = [(''hooks'', FlBool True)]"

definition RequestPermissions :: bool where
  "RequestPermissions = True"

definition HandleMethodCall ::
  "win_outcomes \<Rightarrow> string \<Rightarrow> WinPlugin \<times> win_os \<Rightarrow> method_response \<times> WinPlugin \<times> win_os" where
  "HandleMethodCall env method_name s =
     (if method_name = ''startCapture'' then
        (case StartCapture env s of (success, s') \<Rightarrow> (Success (FlBool success), s'))
      else if method_name = ''stopCapture'' then
        (let s' = StopCapture s in (Success (FlBool True), s'))
      else if method_name = ''isCapturing'' then (Success (FlBool (is_capturing' (fst s))), s)
      else if method_name = ''checkPermissions'' then (Success (FlMap CheckPermissions), s)
      else if method_name = ''requestPermissions'' then (Success (FlBool RequestPermissions), s)
      else (NotImplemented, s))"

section \<open>Sequences of control calls\<close>

text \<open>
  A caller's view of a session: a finite list of start and stop calls, each start with
  what the system answers to its acquisitions, run from the initial state.
\<close>

datatype linux_call = Start x_outcomes | Stop

fun run_linux :: "linux_call list \<Rightarrow> InputCapturePlugin \<times> os \<Rightarrow> InputCapturePlugin \<times> os" where
  "run_linux [] s = s"
| "run_linux (Start env # cs) s = run_linux cs (start_capture env s)"
| "run_linux (Stop # cs) s = run_linux cs (stop_capture s)"

datatype windows_call = WStart win_outcomes | WStop

fun run_windows :: "windows_call list \<Rightarrow> WinPlugin \<times> win_os \<Rightarrow> WinPlugin \<times> win_os" where
  "run_windows [] s = s"
| "run_windows (WStart env # cs) s = run_windows cs (snd (StartCapture env s))"
| "run_windows (WStop # cs) s = run_windows cs (StopCapture s)"

text \<open>
  The shape of every state the calls can reach: idle with nothing held and the handle
  fields cleared, or running with exactly the session's resources, each once, and the
  object's fields naming them.
\<close>

fun linux_ok :: "InputCapturePlugin \<times> os \<Rightarrow> bool" where
  "linux_ok (self, w) =
     (if is_capturing self
      then (case record_display self of
              None \<Rightarrow> False
            | Some d \<Rightarrow> record_context self \<noteq> 0 \<and>
                held w = [Thread (record_thread self), Context (record_context self), Display d])
      else held w = [] \<and> record_display self = None \<and> record_context self = 0)"

fun windows_ok :: "WinPlugin \<times> win_os \<Rightarrow> bool" where
  "windows_ok (self, w) =
     (if is_capturing' self
      then (case (keyboard_hook' self, mouse_hook' self) of
              (Some kh, Some mh) \<Rightarrow> hooks w = [Hook WH_MOUSE_LL mh, Hook WH_KEYBOARD_LL kh]
            | _ \<Rightarrow> False)
      else hooks w = [] \<and> keyboard_hook' self = None \<and> mouse_hook' self = None)"

section \<open>Kernel-stream platform: key names and the record decoder\<close>

text \<open>
  Constants of the X11 headers (\<^verbatim>\<open>X.h\<close>, \<^verbatim>\<open>keysymdef.h\<close>, \<^verbatim>\<open>record.h\<close>) that the
  source names.
\<close>

abbreviation (input) KeyPress :: nat where "KeyPress \<equiv> 2"
abbreviation (input) KeyRelease :: nat where "KeyRelease \<equiv> 3"
abbreviation (input) ButtonPress :: nat where "ButtonPress \<equiv> 4"
abbreviation (input) ButtonRelease :: nat where "ButtonRelease \<equiv> 5"
abbreviation (input) MotionNotify :: nat where "MotionNotify \<equiv> 6"
abbreviation (input) XRecordFromServer :: nat where "XRecordFromServer \<equiv> 0"

abbreviation (input) ShiftMask :: "8 word" where "ShiftMask \<equiv> 0x01"
abbreviation (input) ControlMask :: "8 word" where "ControlMask \<equiv> 0x04"
abbreviation (input) Mod1Mask :: "8 word" where "Mod1Mask \<equiv> 0x08"
abbreviation (input) Mod4Mask :: "8 word" where "Mod4Mask \<equiv> 0x40"

type_synonym KeySym = "64 word"

abbreviation (input) XK_space :: KeySym where "XK_space \<equiv> 0x0020"
abbreviation (input) XK_asciitilde :: KeySym where "XK_asciitilde \<equiv> 0x007e"
abbreviation (input) XK_BackSpace :: KeySym where "XK_BackSpace \<equiv> 0xff08"
abbreviation (input) XK_Tab :: KeySym where "XK_Tab \<equiv> 0xff09"
abbreviation (input) XK_Return :: KeySym where "XK_Return \<equiv> 0xff0d"
abbreviation (input) XK_Escape :: KeySym where "XK_Escape \<equiv> 0xff1b"
abbreviation (input) XK_Delete :: KeySym where "XK_Delete \<equiv> 0xffff"
abbreviation (input) XK_Home :: KeySym where "XK_Home \<equiv> 0xff50"
abbreviation (input) XK_Left :: KeySym where "XK_Left \<equiv> 0xff51"
abbreviation (input) XK_Up :: KeySym where "XK_Up \<equiv> 0xff52"
abbreviation (input) XK_Right :: KeySym where "XK_Right \<equiv> 0xff53"
abbreviation (input) XK_Down :: KeySym where "XK_Down \<equiv> 0xff54"
abbreviation (input) XK_Page_Up :: KeySym where "XK_Page_Up \<equiv> 0xff55"
abbreviation (input) XK_Page_Down :: KeySym where "XK_Page_Down \<equiv> 0xff56"
abbreviation (input) XK_End :: KeySym where "XK_End \<equiv> 0xff57"
abbreviation (input) XK_F1 :: KeySym where "XK_F1 \<equiv> 0xffbe"
abbreviation (input) XK_F2 :: KeySym where "XK_F2 \<equiv> 0xffbf"
abbreviation (input) XK_F3 :: KeySym where "XK_F3 \<equiv> 0xffc0"
abbreviation (input) XK_F4 :: KeySym where "XK_F4 \<equiv> 0xffc1"
abbreviation (input) XK_F5 :: KeySym where "XK_F5 \<equiv> 0xffc2"
abbreviation (input) XK_F6 :: KeySym where "XK_F6 \<equiv> 0xffc3"
abbreviation (input) XK_F7 :: KeySym where "XK_F7 \<equiv> 0xffc4"
abbreviation (input) XK_F8 :: KeySym where "XK_F8 \<equiv> 0xffc5"
abbreviation (input) XK_F9 :: KeySym where "XK_F9 \<equiv> 0xffc6"
abbreviation (input) XK_F10 :: KeySym where "XK_F10 \<equiv> 0xffc7"
abbreviation (input) XK_F11 :: KeySym where "XK_F11 \<equiv> 0xffc8"
abbreviation (input) XK_F12 :: KeySym where "XK_F12 \<equiv> 0xffc9"
abbreviation (input) XK_Shift_L :: KeySym where "XK_Shift_L \<equiv> 0xffe1"
abbreviation (input) XK_Shift_R :: KeySym where "XK_Shift_R \<equiv> 0xffe2"
abbreviation (input) XK_Control_L :: KeySym where "XK_Control_L \<equiv> 0xffe3"
abbreviation (input) XK_Control_R :: KeySym where "XK_Control_R \<equiv> 0xffe4"
abbreviation (input) XK_Alt_L :: KeySym where "XK_Alt_L \<equiv> 0xffe9"
abbreviation (input) XK_Alt_R :: KeySym where "XK_Alt_R \<equiv> 0xffea"
abbreviation (input) XK_Super_L :: KeySym where "XK_Super_L \<equiv> 0xffeb"
abbreviation (input) XK_Super_R :: KeySym where "XK_Super_R \<equiv> 0xffec"

text \<open>
  \<^verbatim>\<open>keycode_to_string\<close>. The range test comes first, then the switch (its labels are
  distinct, so the order of the tests below does not matter), then the fallback:
  \<^verbatim>\<open>snprintf\<close> into a 32-byte buffer keeps at most 31 characters.
\<close>

definition keycode_to_string :: "KeySym \<Rightarrow> string" where
  "keycode_to_string keysym =
     (if keysym \<ge> XK_space \<and> keysym \<le> XK_asciitilde then [char_of (unat keysym)]
      else if keysym = XK_Return then ''Return''
      else if keysym = XK_Tab then ''Tab''
      else if keysym = XK_BackSpace then ''Backspace''
      else if keysym = XK_Escape then ''Escape''
      else if keysym = XK_Delete then ''Delete''
      else if keysym = XK_Home then ''Home''
      else if keysym = XK_End then ''End''
      else if keysym = XK_Page_Up then ''PageUp''
      else if keysym = XK_Page_Down then ''PageDown''
      else if keysym = XK_Left then ''Left''
      else if keysym = XK_Right then ''Right''
      else if keysym = XK_Up then ''Up''
      else if keysym = XK_Down then ''Down''
      else if keysym = XK_F1 then ''F1''
      else if keysym = XK_F2 then ''F2''
      else if keysym = XK_F3 then ''F3''
      else if keysym = XK_F4 then ''F4''
      else if keysym = XK_F5 then ''F5''
      else if keysym = XK_F6 then ''F6''
      else if keysym = XK_F7 then ''F7''
      else if keysym = XK_F8 then ''F8''
      else if keysym = XK_F9 then ''F9''
      else if keysym = XK_F10 then ''F10''
      else if keysym = XK_F11 then ''F11''
      else if keysym = XK_F12 then ''F12''
      else if keysym = XK_Shift_L \<or> keysym = XK_Shift_R then ''Shift''
      else if keysym = XK_Control_L \<or> keysym = XK_Control_R then ''Control''
      else if keysym = XK_Alt_L \<or> keysym = XK_Alt_R then ''Alt''
      else if keysym = XK_Super_L \<or> keysym = XK_Super_R then ''Super''
      else take 31 (''Key'' @ to_string (unat keysym)))"

text \<open>
  One intercepted record: its category and the bytes behind \<^verbatim>\<open>data->data\<close>, read by
  offset. A 16-bit field is read in the host's byte order (little-endian).
\<close>

record XRecordInterceptData =
  category :: nat
  data :: "nat \<Rightarrow> 8 word"

definition read_int16 :: "(nat \<Rightarrow> 8 word) \<Rightarrow> nat \<Rightarrow> int" where
  "read_int16 event_data off =
     sint (word_cat (event_data (off + 1)) (event_data off) :: 16 word)"

text \<open>
  \<^verbatim>\<open>send_event_to_dart\<close>: the event goes onto the event channel when the handler pointer
  is set. The channel is the list of events sent so far.
\<close>

definition send_event_to_dart :: "InputCapturePlugin \<Rightarrow> fl_map \<Rightarrow> fl_map list \<Rightarrow> fl_map list" where
  "send_event_to_dart self event_data chan =
     (if event_handler self \<noteq> None then chan @ [event_data] else chan)"

text \<open>
  \<^verbatim>\<open>listen_cb\<close> and \<^verbatim>\<open>cancel_cb\<close>, the event channel's callbacks for a listener
  attaching and detaching: each prints a line and returns no error. Neither writes a
  field of the plugin.
\<close>

definition listen_cb :: "InputCapturePlugin \<Rightarrow> nat option \<times> InputCapturePlugin" where
  "listen_cb self = (None, self)"

definition cancel_cb :: "InputCapturePlugin \<Rightarrow> nat option \<times> InputCapturePlugin" where
  "cancel_cb self = (None, self)"

text \<open>
  \<^verbatim>\<open>record_event_callback\<close>. Its inputs beyond the record: the keyboard mapping that
  \<^verbatim>\<open>XKeycodeToKeysym\<close> consults (keycode to keysym, column 0) and the clock,
  \<^verbatim>\<open>g_get_real_time()\<close> in microseconds (non-negative).
\<close>

definition record_event_callback ::
  "(8 word \<Rightarrow> KeySym) \<Rightarrow> nat \<Rightarrow> InputCapturePlugin \<Rightarrow> XRecordInterceptData \<Rightarrow>
     fl_map list \<Rightarrow> fl_map list" where
  "record_event_callback XKeycodeToKeysym real_time self d chan =
     (if category d \<noteq> XRecordFromServer then chan
      else
        let event_data = data d;
            event_type = unat (event_data 0 AND 0x7F);
            timestamp = int (real_time div 1000);
            event_map = fl_value_set_string_take [] ''timestamp'' (FlInt timestamp)
        in
          if event_type = KeyPress \<or> event_type = KeyRelease then
            (let event_map = fl_value_set_string_take event_map ''type''
                   (FlString (if event_type = KeyPress then ''keyDown'' else ''keyUp''));
                 keycode = event_data 1;
                 event_map = fl_value_set_string_take event_map ''keyCode'' (FlInt (uint keycode));
                 keysym = XKeycodeToKeysym keycode;
                 key_string = keycode_to_string keysym;
                 event_map = fl_value_set_string_take event_map ''key'' (FlString key_string);
                 modifier_state = event_data 28;
                 modifiers = [];
                 modifiers = (if modifier_state AND ShiftMask \<noteq> 0
                              then fl_value_append_take modifiers (FlString ''shift'')
                              else modifiers);
                 modifiers = (if modifier_state AND ControlMask \<noteq> 0
                              then fl_value_append_take modifiers (FlString ''control'')
                              else modifiers);
                 modifiers = (if modifier_state AND Mod1Mask \<noteq> 0
                              then fl_value_append_take modifiers (FlString ''alt'')
                              else modifiers);
                 modifiers = (if modifier_state AND Mod4Mask \<noteq> 0
                              then fl_value_append_take modifiers (FlString ''meta'')
                              else modifiers);
                 event_map = fl_value_set_string_take event_map ''modifiers'' (FlList modifiers)
             in send_event_to_dart self event_map chan)
          else if event_type = ButtonPress \<or> event_type = ButtonRelease then
            (let event_map = fl_value_set_string_take event_map ''type''
                   (FlString (if event_type = ButtonPress then ''mouseDown'' else ''mouseUp''));
                 button = event_data 1;
                 button_name = (if button = 1 then ''left''
                                else if button = 2 then ''middle''
                                else if button = 3 then ''right''
                                else ''other'');
                 event_map = fl_value_set_string_take event_map ''button'' (FlString button_name);
                 x = read_int16 event_data 24;
                 y = read_int16 event_data 26;
                 event_map = fl_value_set_string_take event_map ''x'' (FlFloat (real_of_int x));
                 event_map = fl_value_set_string_take event_map ''y'' (FlFloat (real_of_int y));
                 event_map =
                   (if button \<ge> 4 \<and> button \<le> 7 then
                      (let event_map = fl_value_set_string_take event_map ''type''
                             (FlString ''mouseScroll'');
                           event_map = fl_value_remove event_map ''button'';
                           (deltaX, deltaY) =
                             (if button = 4 then (0, 1)
                              else if button = 5 then (0, - 1)
                              else if button = 6 then (1, 0)
                              else if button = 7 then (- 1, 0)
                              else (0, 0));
                           event_map = fl_value_set_string_take event_map ''deltaX'' (FlFloat deltaX)
                       in fl_value_set_string_take event_map ''deltaY'' (FlFloat deltaY))
                    else event_map)
             in send_event_to_dart self event_map chan)
          else if event_type = MotionNotify then
            (let event_map = fl_value_set_string_take event_map ''type'' (FlString ''mouseMove'');
                 x = read_int16 event_data 24;
                 y = read_int16 event_data 26;
                 event_map = fl_value_set_string_take event_map ''x'' (FlFloat (real_of_int x));
                 event_map = fl_value_set_string_take event_map ''y'' (FlFloat (real_of_int y))
             in send_event_to_dart self event_map chan)
          else chan)"

section \<open>Hook-callback platform: key names, the sink and the hook procedures\<close>

text \<open>Constants of \<^verbatim>\<open>winuser.h\<close> that the source names.\<close>

type_synonym DWORD = "32 word"
type_synonym WPARAM = "64 word"

abbreviation (input) VK_BACK :: DWORD where "VK_BACK \<equiv> 0x08"
abbreviation (input) VK_TAB :: DWORD where "VK_TAB \<equiv> 0x09"
abbreviation (input) VK_RETURN :: DWORD where "VK_RETURN \<equiv> 0x0D"
abbreviation (input) VK_SHIFT :: DWORD where "VK_SHIFT \<equiv> 0x10"
abbreviation (input) VK_CONTROL :: DWORD where "VK_CONTROL \<equiv> 0x11"
abbreviation (input) VK_MENU :: DWORD where "VK_MENU \<equiv> 0x12"
abbreviation (input) VK_ESCAPE :: DWORD where "VK_ESCAPE \<equiv> 0x1B"
abbreviation (input) VK_SPACE :: DWORD where "VK_SPACE \<equiv> 0x20"
abbreviation (input) VK_PRIOR :: DWORD where "VK_PRIOR \<equiv> 0x21"
abbreviation (input) VK_NEXT :: DWORD where "VK_NEXT \<equiv> 0x22"
abbreviation (input) VK_END :: DWORD where "VK_END \<equiv> 0x23"
abbreviation (input) VK_HOME :: DWORD where "VK_HOME \<equiv> 0x24"
abbreviation (input) VK_LEFT :: DWORD where "VK_LEFT \<equiv> 0x25"
abbreviation (input) VK_UP :: DWORD where "VK_UP \<equiv> 0x26"
abbreviation (input) VK_RIGHT :: DWORD where "VK_RIGHT \<equiv> 0x27"
abbreviation (input) VK_DOWN :: DWORD where "VK_DOWN \<equiv> 0x28"
abbreviation (input) VK_DELETE :: DWORD where "VK_DELETE \<equiv> 0x2E"
abbreviation (input) VK_LWIN :: DWORD where "VK_LWIN \<equiv> 0x5B"
abbreviation (input) VK_RWIN :: DWORD where "VK_RWIN \<equiv> 0x5C"
abbreviation (input) VK_F1 :: DWORD where "VK_F1 \<equiv> 0x70"
abbreviation (input) VK_F2 :: DWORD where "VK_F2 \<equiv> 0x71"
abbreviation (input) VK_F3 :: DWORD where "VK_F3 \<equiv> 0x72"
abbreviation (input) VK_F4 :: DWORD where "VK_F4 \<equiv> 0x73"
abbreviation (input) VK_F5 :: DWORD where "VK_F5 \<equiv> 0x74"
abbreviation (input) VK_F6 :: DWORD where "VK_F6 \<equiv> 0x75"
abbreviation (input) VK_F7 :: DWORD where "VK_F7 \<equiv> 0x76"
abbreviation (input) VK_F8 :: DWORD where "VK_F8 \<equiv> 0x77"
abbreviation (input) VK_F9 :: DWORD where "VK_F9 \<equiv> 0x78"
abbreviation (input) VK_F10 :: DWORD where "VK_F10 \<equiv> 0x79"
abbreviation (input) VK_F11 :: DWORD where "VK_F11 \<equiv> 0x7A"
abbreviation (input) VK_F12 :: DWORD where "VK_F12 \<equiv> 0x7B"
abbreviation (input) VK_LSHIFT :: DWORD where "VK_LSHIFT \<equiv> 0xA0"
abbreviation (input) VK_RSHIFT :: DWORD where "VK_RSHIFT \<equiv> 0xA1"
abbreviation (input) VK_LCONTROL :: DWORD where "VK_LCONTROL \<equiv> 0xA2"
abbreviation (input) VK_RCONTROL :: DWORD where "VK_RCONTROL \<equiv> 0xA3"
abbreviation (input) VK_LMENU :: DWORD where "VK_LMENU \<equiv> 0xA4"
abbreviation (input) VK_RMENU :: DWORD where "VK_RMENU \<equiv> 0xA5"

abbreviation (input) WM_KEYDOWN :: WPARAM where "WM_KEYDOWN \<equiv> 0x0100"
abbreviation (input) WM_SYSKEYDOWN :: WPARAM where "WM_SYSKEYDOWN \<equiv> 0x0104"
abbreviation (input) WM_MOUSEMOVE :: WPARAM where "WM_MOUSEMOVE \<equiv> 0x0200"
abbreviation (input) WM_LBUTTONDOWN :: WPARAM where "WM_LBUTTONDOWN \<equiv> 0x0201"
abbreviation (input) WM_LBUTTONUP :: WPARAM where "WM_LBUTTONUP \<equiv> 0x0202"
abbreviation (input) WM_RBUTTONDOWN :: WPARAM where "WM_RBUTTONDOWN \<equiv> 0x0204"
abbreviation (input) WM_RBUTTONUP :: WPARAM where "WM_RBUTTONUP \<equiv> 0x0205"
abbreviation (input) WM_MBUTTONDOWN :: WPARAM where "WM_MBUTTONDOWN \<equiv> 0x0207"
abbreviation (input) WM_MBUTTONUP :: WPARAM where "WM_MBUTTONUP \<equiv> 0x0208"
abbreviation (input) WM_MOUSEWHEEL :: WPARAM where "WM_MOUSEWHEEL \<equiv> 0x020A"
abbreviation (input) WM_MOUSEHWHEEL :: WPARAM where "WM_MOUSEHWHEEL \<equiv> 0x020E"

text \<open>
  \<^verbatim>\<open>GetTimestamp\<close>: the argument is the 64-bit file time the system clock returned; the
  arithmetic is unsigned 64-bit and the result is read as \<^verbatim>\<open>int64_t\<close>.
\<close>

definition GetTimestamp :: "64 word \<Rightarrow> int" where
  "GetTimestamp QuadPart = sint (QuadPart div 10000 - 11644473600000)"

text \<open>\<^verbatim>\<open>VKeyToString\<close>: the two range tests, then the switch, then the fallback.\<close>

definition VKeyToString :: "DWORD \<Rightarrow> string" where
  "VKeyToString vkCode =
     (if vkCode \<ge> 0x30 \<and> vkCode \<le> 0x39 then [char_of (unat vkCode)]
      else if vkCode \<ge> 0x41 \<and> vkCode \<le> 0x5A then [char_of (unat (vkCode + 32))]
      else if vkCode = VK_RETURN then ''Return''
      else if vkCode = VK_TAB then ''Tab''
      else if vkCode = VK_BACK then ''Backspace''
      else if vkCode = VK_ESCAPE then ''Escape''
      else if vkCode = VK_DELETE then ''Delete''
      else if vkCode = VK_HOME then ''Home''
      else if vkCode = VK_END then ''End''
      else if vkCode = VK_PRIOR then ''PageUp''
      else if vkCode = VK_NEXT then ''PageDown''
      else if vkCode = VK_LEFT then ''Left''
      else if vkCode = VK_RIGHT then ''Right''
      else if vkCode = VK_UP then ''Up''
      else if vkCode = VK_DOWN then ''Down''
      else if vkCode = VK_SPACE then ''Space''
      else if vkCode = VK_F1 then ''F1''
      else if vkCode = VK_F2 then ''F2''
      else if vkCode = VK_F3 then ''F3''
      else if vkCode = VK_F4 then ''F4''
      else if vkCode = VK_F5 then ''F5''
      else if vkCode = VK_F6 then ''F6''
      else if vkCode = VK_F7 then ''F7''
      else if vkCode = VK_F8 then ''F8''
      else if vkCode = VK_F9 then ''F9''
      else if vkCode = VK_F10 then ''F10''
      else if vkCode = VK_F11 then ''F11''
      else if vkCode = VK_F12 then ''F12''
      else if vkCode = VK_SHIFT \<or> vkCode = VK_LSHIFT \<or> vkCode = VK_RSHIFT then ''Shift''
      else if vkCode = VK_CONTROL \<or> vkCode = VK_LCONTROL \<or> vkCode = VK_RCONTROL then ''Control''
      else if vkCode = VK_MENU \<or> vkCode = VK_LMENU \<or> vkCode = VK_RMENU then ''Alt''
      else if vkCode = VK_LWIN \<or> vkCode = VK_RWIN then ''Meta''
      else ''Key'' @ to_string (unat vkCode))"

text \<open>
  The stream handler: listening stores the sink it is given, cancelling clears it.
  \<^verbatim>\<open>SendEvent\<close> hands the event to the stored sink; the sinks' deliveries are kept as a
  list of (sink, event) pairs.
\<close>

definition OnListenInternal :: "nat option \<Rightarrow> WinPlugin \<Rightarrow> WinPlugin" where
  "OnListenInternal events plugin = plugin\<lparr>event_sink' := events\<rparr>"

definition OnCancelInternal :: "WinPlugin \<Rightarrow> WinPlugin" where
  "OnCancelInternal plugin = plugin\<lparr>event_sink' := None\<rparr>"

definition SendEvent :: "WinPlugin \<Rightarrow> fl_map \<Rightarrow> (nat \<times> fl_map) list \<Rightarrow> (nat \<times> fl_map) list" where
  "SendEvent self event delivered =
     (case event_sink' self of
        Some sink \<Rightarrow> delivered @ [(sink, event)]
      | None \<Rightarrow> delivered)"

text \<open>
  The hook records, with the fields the procedures read, and what a hook procedure
  returns: a value of its own, or whatever \<^verbatim>\<open>CallNextHookEx\<close> returns for the same
  arguments.
\<close>

record KBDLLHOOKSTRUCT =
  vkCode :: DWORD

record MSLLHOOKSTRUCT =
  pt_x :: "32 word"
  pt_y :: "32 word"
  mouseData :: DWORD

datatype LRESULT = Return int | CallNextHookEx int WPARAM

text \<open>
  The static instance pointer \<^verbatim>\<open>instance_\<close> is a \<open>WinPlugin option\<close>. Reading
  \<^verbatim>\<open>instance_->event_sink_\<close> and calling \<^verbatim>\<open>instance_->SendEvent\<close> go through the
  pointer; the source does both only after its null test.
\<close>

definition sink_attached :: "WinPlugin option \<Rightarrow> bool" where
  "sink_attached instance' =
     (case instance' of None \<Rightarrow> False | Some self \<Rightarrow> event_sink' self \<noteq> None)"

definition instance_SendEvent ::
  "WinPlugin option \<Rightarrow> fl_map \<Rightarrow> (nat \<times> fl_map) list \<Rightarrow> (nat \<times> fl_map) list" where
  "instance_SendEvent instance' event delivered =
     (case instance' of None \<Rightarrow> delivered | Some self \<Rightarrow> SendEvent self event delivered)"

text \<open>
  \<^verbatim>\<open>KeyboardHookProc\<close>. \<open>GetAsyncKeyState\<close> is the live key state it queries,
  \<open>file_time\<close> the clock.
\<close>

definition KeyboardHookProc ::
  "(DWORD \<Rightarrow> 16 word) \<Rightarrow> 64 word \<Rightarrow> WinPlugin option \<Rightarrow> int \<Rightarrow> WPARAM \<Rightarrow> KBDLLHOOKSTRUCT \<Rightarrow>
     (nat \<times> fl_map) list \<Rightarrow> LRESULT \<times> (nat \<times> fl_map) list" where
  "KeyboardHookProc GetAsyncKeyState file_time instance' nCode wParam kb delivered =
     (if nCode \<ge> 0 \<and> instance' \<noteq> None \<and> sink_attached instance' then
        (let event = fl_value_set_string_take [] ''timestamp'' (FlInt (GetTimestamp file_time));
             is_down = (wParam = WM_KEYDOWN \<or> wParam = WM_SYSKEYDOWN);
             event = fl_value_set_string_take event ''type''
                       (FlString (if is_down then ''keyDown'' else ''keyUp''));
             event = fl_value_set_string_take event ''keyCode'' (FlInt (sint (vkCode kb)));
             event = fl_value_set_string_take event ''key'' (FlString (VKeyToString (vkCode kb)));
             modifiers = [];
             modifiers = (if GetAsyncKeyState VK_SHIFT AND 0x8000 \<noteq> 0
                          then modifiers @ [FlString ''shift''] else modifiers);
             modifiers = (if GetAsyncKeyState VK_CONTROL AND 0x8000 \<noteq> 0
                          then modifiers @ [FlString ''control''] else modifiers);
             modifiers = (if GetAsyncKeyState VK_MENU AND 0x8000 \<noteq> 0
                          then modifiers @ [FlString ''alt''] else modifiers);
             modifiers = (if GetAsyncKeyState VK_LWIN AND 0x8000 \<noteq> 0 \<or>
                             GetAsyncKeyState VK_RWIN AND 0x8000 \<noteq> 0
                          then modifiers @ [FlString ''meta''] else modifiers);
             event = fl_value_set_string_take event ''modifiers'' (FlList modifiers)
         in (Return (- 1), instance_SendEvent instance' event delivered))
      else (CallNextHookEx nCode wParam, delivered))"

text \<open>
  \<^verbatim>\<open>MouseHookProc\<close>. The three button cases of its switch differ only in the message
  pair and the button name; \<open>button_event\<close> is their common body. The default case
  returns through \<^verbatim>\<open>CallNextHookEx\<close> before anything is sent. The wheel delta is the
  high word of \<^verbatim>\<open>mouseData\<close> read as a signed 16-bit number, divided by 120.
\<close>

definition button_event :: "fl_map \<Rightarrow> bool \<Rightarrow> string \<Rightarrow> MSLLHOOKSTRUCT \<Rightarrow> fl_map" where
  "button_event event down name ms =
     (let event = fl_value_set_string_take event ''type''
                    (FlString (if down then ''mouseDown'' else ''mouseUp''));
          event = fl_value_set_string_take event ''button'' (FlString name);
          event = fl_value_set_string_take event ''x'' (FlFloat (real_of_int (sint (pt_x ms))))
      in fl_value_set_string_take event ''y'' (FlFloat (real_of_int (sint (pt_y ms)))))"

definition MouseHookProc ::
  "64 word \<Rightarrow> WinPlugin option \<Rightarrow> int \<Rightarrow> WPARAM \<Rightarrow> MSLLHOOKSTRUCT \<Rightarrow>
     (nat \<times> fl_map) list \<Rightarrow> LRESULT \<times> (nat \<times> fl_map) list" where
  "MouseHookProc file_time instance' nCode wParam ms delivered =
     (if nCode \<ge> 0 \<and> instance' \<noteq> None \<and> sink_attached instance' then
        (let event = fl_value_set_string_take [] ''timestamp'' (FlInt (GetTimestamp file_time));
             decoded =
               (if wParam = WM_MOUSEMOVE then
                  (let event = fl_value_set_string_take event ''type'' (FlString ''mouseMove'');
                       event = fl_value_set_string_take event ''x''
                                 (FlFloat (real_of_int (sint (pt_x ms))))
                   in Some (fl_value_set_string_take event ''y''
                              (FlFloat (real_of_int (sint (pt_y ms))))))
                else if wParam = WM_LBUTTONDOWN \<or> wParam = WM_LBUTTONUP then
                  Some (button_event event (wParam = WM_LBUTTONDOWN) ''left'' ms)
                else if wParam = WM_RBUTTONDOWN \<or> wParam = WM_RBUTTONUP then
                  Some (button_event event (wParam = WM_RBUTTONDOWN) ''right'' ms)
                else if wParam = WM_MBUTTONDOWN \<or> wParam = WM_MBUTTONUP then
                  Some (button_event event (wParam = WM_MBUTTONDOWN) ''middle'' ms)
                else if wParam = WM_MOUSEWHEEL \<or> wParam = WM_MOUSEHWHEEL then
                  (let event = fl_value_set_string_take event ''type'' (FlString ''mouseScroll'');
                       delta = sint (ucast (drop_bit 16 (mouseData ms)) :: 16 word);
                       normalized_delta = real_of_int delta / 120
                   in if wParam = WM_MOUSEWHEEL
                      then Some (fl_value_set_string_take
                                   (fl_value_set_string_take event ''deltaX'' (FlFloat 0))
                                   ''deltaY'' (FlFloat normalized_delta))
                      else Some (fl_value_set_string_take
                                   (fl_value_set_string_take event ''deltaX''
                                      (FlFloat normalized_delta))
                                   ''deltaY'' (FlFloat 0)))
                else None)
         in (case decoded of
               None \<Rightarrow> (CallNextHookEx nCode wParam, delivered)
             | Some event \<Rightarrow> (Return 1, instance_SendEvent instance' event delivered)))
      else (CallNextHookEx nCode wParam, delivered))"

section \<open>Reading the call logs\<close>

text \<open>
  What one library call acquires, what it releases, and whether it is an acquisition
  that failed.
\<close>

fun acquires :: "x_call \<Rightarrow> resource option" where
  "acquires (Call_XOpenDisplay (Some d)) = Some (Display d)"
| "acquires (Call_XRecordAllocRange (Some a)) = Some (Range a)"
| "acquires (Call_XRecordCreateContext d c) = (if c = 0 then None else Some (Context c))"
| "acquires (Call_pthread_create ret t) = (if ret = 0 then Some (Thread t) else None)"
| "acquires _ = None"

fun releases :: "x_call \<Rightarrow> resource option" where
  "releases (Call_XFree a) = Some (Range a)"
| "releases (Call_XRecordFreeContext d c) = Some (Context c)"
| "releases (Call_pthread_join t) = Some (Thread t)"
| "releases (Call_XCloseDisplay d) = Some (Display d)"
| "releases _ = None"

fun failed :: "x_call \<Rightarrow> bool" where
  "failed (Call_XOpenDisplay None) = True"
| "failed (Call_XRecordAllocRange None) = True"
| "failed (Call_XRecordCreateContext d c) = (c = 0)"
| "failed (Call_pthread_create ret t) = (ret \<noteq> 0)"
| "failed _ = False"

text \<open>
  The resources held after one more call, most recent first, and the test for a rolled
  back attempt: the log has a failed acquisition, and the calls after the first one
  release exactly what was held at that point, the most recently acquired first.
\<close>

definition held_after :: "x_call \<Rightarrow> resource list \<Rightarrow> resource list" where
  "held_after c h =
     (case acquires c of
        Some r \<Rightarrow> r # h
      | None \<Rightarrow> (case releases c of Some r \<Rightarrow> remove1 r h | None \<Rightarrow> h))"

fun rolled_back :: "x_call list \<Rightarrow> resource list \<Rightarrow> bool" where
  "rolled_back [] h = False"
| "rolled_back (c # cs) h =
     (if failed c then map releases cs = map Some h else rolled_back cs (held_after c h))"

text \<open>The same for the hooks; a hook is removed by its handle.\<close>

fun win_rolled_back :: "win_call list \<Rightarrow> nat list \<Rightarrow> bool" where
  "win_rolled_back [] h = False"
| "win_rolled_back (Call_SetWindowsHookEx k None # cs) h = (cs = map Call_UnhookWindowsHookEx h)"
| "win_rolled_back (Call_SetWindowsHookEx k (Some a) # cs) h = win_rolled_back cs (a # h)"
| "win_rolled_back (Call_UnhookWindowsHookEx a # cs) h = win_rolled_back cs (remove1 a h)"

text \<open>The calls an operation adds to the log.\<close>

definition new_calls :: "os \<Rightarrow> os \<Rightarrow> x_call list" where
  "new_calls w w' = drop (length (calls w)) (calls w')"

definition new_win_calls :: "win_os \<Rightarrow> win_os \<Rightarrow> win_call list" where
  "new_win_calls w w' = drop (length (win_calls w)) (win_calls w')"

text \<open>The resources a log releases before its first \<^verbatim>\<open>pthread_join\<close>.\<close>

fun released_before_join :: "x_call list \<Rightarrow> resource list" where
  "released_before_join [] = []"
| "released_before_join (Call_pthread_join t # cs) = []"
| "released_before_join (c # cs) =
     (case releases c of
        Some r \<Rightarrow> r # released_before_join cs
      | None \<Rightarrow> released_before_join cs)"

text \<open>Some acquisition of a start attempt fails.\<close>

definition start_fails :: "x_outcomes \<Rightarrow> bool" where
  "start_fails env =
     (XOpenDisplay_result env = None \<or> XRecordAllocRange_result env = None \<or>
      XRecordCreateContext_result env = 0 \<or> pthread_create_result env \<noteq> 0)"

definition win_start_fails :: "win_outcomes \<Rightarrow> bool" where
  "win_start_fails env =
     (keyboard_SetWindowsHookEx_result env = None \<or> mouse_SetWindowsHookEx_result env = None)"

section \<open>Key names as the specification lists them\<close>

text \<open>
  The symbolic names the specification gives for non-printable keys (the arrow names
  being \<open>Left\<close>, \<open>Right\<close>, \<open>Up\<close>, \<open>Down\<close>), and the shape it requires of every key
  name: one character, one of these names, or \<open>Key\<close> followed by the code in decimal.
\<close>

definition spec_symbolic_names :: "string list" where
  "spec_symbolic_names =
     [''Return'', ''Tab'', ''Backspace'', ''Escape'', ''Delete'', ''Home'', ''End'',
      ''PageUp'', ''PageDown'', ''Left'', ''Right'', ''Up'', ''Down'',
      ''F1'', ''F2'', ''F3'', ''F4'', ''F5'', ''F6'', ''F7'', ''F8'', ''F9'', ''F10'',
      ''F11'', ''F12'', ''Shift'', ''Control'', ''Alt'', ''Meta'']"

definition spec_key_shape :: "nat \<Rightarrow> string \<Rightarrow> bool" where
  "spec_key_shape code name =
     (length name = 1 \<or> name \<in> set spec_symbolic_names \<or> name = ''Key'' @ to_string code)"

text \<open>
  The names the two switches return: one platform names the Super keys \<open>Super\<close> where
  the list has \<open>Meta\<close>, the other has \<open>Space\<close> in addition. The codes are the switches'
  case labels.
\<close>

definition linux_symbolic_names :: "string list" where
  "linux_symbolic_names = butlast spec_symbolic_names @ [''Super'']"

definition windows_symbolic_names :: "string list" where
  "windows_symbolic_names = spec_symbolic_names @ [''Space'']"

definition switch_keysyms :: "KeySym list" where
  "switch_keysyms =
     [XK_Return, XK_Tab, XK_BackSpace, XK_Escape, XK_Delete, XK_Home, XK_End, XK_Page_Up,
      XK_Page_Down, XK_Left, XK_Right, XK_Up, XK_Down, XK_F1, XK_F2, XK_F3, XK_F4, XK_F5,
      XK_F6, XK_F7, XK_F8, XK_F9, XK_F10, XK_F11, XK_F12, XK_Shift_L, XK_Shift_R,
      XK_Control_L, XK_Control_R, XK_Alt_L, XK_Alt_R, XK_Super_L, XK_Super_R]"

definition switch_vkeys :: "DWORD list" where
  "switch_vkeys =
     [VK_RETURN, VK_TAB, VK_BACK, VK_ESCAPE, VK_DELETE, VK_HOME, VK_END, VK_PRIOR, VK_NEXT,
      VK_LEFT, VK_RIGHT, VK_UP, VK_DOWN, VK_SPACE, VK_F1, VK_F2, VK_F3, VK_F4, VK_F5, VK_F6,
      VK_F7, VK_F8, VK_F9, VK_F10, VK_F11, VK_F12, VK_SHIFT, VK_LSHIFT, VK_RSHIFT,
      VK_CONTROL, VK_LCONTROL, VK_RCONTROL, VK_MENU, VK_LMENU, VK_RMENU, VK_LWIN, VK_RWIN]"

section \<open>Sample inputs\<close>

text \<open>
  A start attempt in which every acquisition succeeds, one whose worker cannot be
  created, and the plugin as registration leaves it.
\<close>

definition all_succeed :: x_outcomes where
  "all_succeed =
     \<lparr>XOpenDisplay_result = Some 11, XRecordAllocRange_result = Some 12,
      XRecordCreateContext_result = 13, pthread_create_result = 0,
      pthread_create_thread = 14, XRecordQueryVersion_result = True\<rparr>"

definition no_thread :: x_outcomes where
  "no_thread = all_succeed\<lparr>pthread_create_result := 11\<rparr>"

definition registered :: "InputCapturePlugin \<times> os" where
  "registered = (input_capture_plugin_register_with_registrar (Some 1) (Some 2), os_init)"

definition both_hooks :: win_outcomes where
  "both_hooks =
     \<lparr>keyboard_SetWindowsHookEx_result = Some 21, mouse_SetWindowsHookEx_result = Some 22\<rparr>"

definition no_mouse_hook :: win_outcomes where
  "no_mouse_hook = both_hooks\<lparr>mouse_SetWindowsHookEx_result := None\<rparr>"

definition constructed :: "WinPlugin \<times> win_os" where
  "constructed = (WinPlugin_init, win_os_init)"

text \<open>
  Raw records: a record of the given type whose byte 1 is \<open>b\<close>, with root coordinates
  (120, 340) and the shift bit in byte 28; and a hook record at the same point.
\<close>

definition sample_bytes :: "8 word \<Rightarrow> 8 word \<Rightarrow> nat \<Rightarrow> 8 word" where
  "sample_bytes ty b =
     (\<lambda>off. if off = 0 then ty else if off = 1 then b
             else if off = 24 then 120 else if off = 25 then 0
             else if off = 26 then 84 else if off = 27 then 1
             else if off = 28 then 1 else 0)"

definition sample_record :: "8 word \<Rightarrow> 8 word \<Rightarrow> XRecordInterceptData" where
  "sample_record ty b = \<lparr>category = XRecordFromServer, data = sample_bytes ty b\<rparr>"

definition sample_keymap :: "8 word \<Rightarrow> KeySym" where
  "sample_keymap keycode =
     (if keycode = 38 then 0x61 else if keycode = 36 then XK_Return
      else if keycode = 133 then XK_Super_L else 0)"

definition sample_point :: MSLLHOOKSTRUCT where
  "sample_point = \<lparr>pt_x = 120, pt_y = 340, mouseData = 0x00780000\<rparr>"

definition listening :: "WinPlugin" where
  "listening = WinPlugin_init\<lparr>event_sink' := Some 5, is_capturing' := True\<rparr>"

definition not_listening :: "WinPlugin" where
  "not_listening = WinPlugin_init\<lparr>is_capturing' := True\<rparr>"

definition no_keys_down :: "DWORD \<Rightarrow> 16 word" where
  "no_keys_down vk = 0"

section \<open>Properties of the capture lifecycle\<close>

subsection \<open>The reachable states\<close>

lemmas os_ops = XOpenDisplay_def XRecordAllocRange_def XRecordCreateContext_def XFree_def
  pthread_create_def XRecordDisableContext_def XRecordFreeContext_def pthread_join_def
  XCloseDisplay_def

lemmas win_ops = SetWindowsHookEx_def UnhookWindowsHookEx_def

lemmas samples = all_succeed_def no_thread_def registered_def both_hooks_def no_mouse_hook_def
  constructed_def input_capture_plugin_register_with_registrar_def
  input_capture_plugin_init_def os_init_def WinPlugin_init_def win_os_init_def

lemma start_capture_ok: "linux_ok s \<Longrightarrow> linux_ok (start_capture env s)"
  by (cases s) (auto simp: os_ops Let_def split: option.splits if_splits)

lemma stop_capture_ok: "linux_ok s \<Longrightarrow> linux_ok (stop_capture s)"
  by (cases s) (auto simp: os_ops Let_def split: option.splits if_splits)

lemma run_linux_ok: "linux_ok s \<Longrightarrow> linux_ok (run_linux cs s)"
proof (induction cs arbitrary: s)
  case Nil
  then show ?case by simp
next
  case (Cons c cs)
  then show ?case
    by (cases c)
       (simp_all add: start_capture_ok stop_capture_ok
          del: linux_ok.simps start_capture.simps stop_capture.simps)
qed

lemma init_ok: "linux_ok (input_capture_plugin_register_with_registrar dpy h, os_init)"
  by (simp add: input_capture_plugin_register_with_registrar_def
      input_capture_plugin_init_def os_init_def)

lemma StartCapture_ok: "windows_ok s \<Longrightarrow> windows_ok (snd (StartCapture env s))"
  by (cases s) (auto simp: win_ops Let_def split: option.splits if_splits)

lemma StopCapture_ok: "windows_ok s \<Longrightarrow> windows_ok (StopCapture s)"
  by (cases s) (auto simp: win_ops Let_def split: option.splits if_splits)

lemma run_windows_ok: "windows_ok s \<Longrightarrow> windows_ok (run_windows cs s)"
proof (induction cs arbitrary: s)
  case Nil
  then show ?case by simp
next
  case (Cons c cs)
  then show ?case
    by (cases c)
       (simp_all add: StartCapture_ok StopCapture_ok
          del: windows_ok.simps StartCapture.simps StopCapture.simps)
qed

lemma win_init_ok: "windows_ok (WinPlugin_init, win_os_init)"
  by (simp add: WinPlugin_init_def win_os_init_def)

lemma start_capture_running: "is_capturing (fst s) \<Longrightarrow> start_capture env s = s"
  by (cases s) simp

lemma stop_capture_idle: "\<not> is_capturing (fst s) \<Longrightarrow> stop_capture s = s"
  by (cases s) simp

lemma stop_capture_not_capturing: "\<not> is_capturing (fst (stop_capture s))"
  by (cases s) (simp add: Let_def split: option.splits prod.splits)

lemma StartCapture_running: "is_capturing' (fst s) \<Longrightarrow> StartCapture env s = (True, s)"
  by (cases s) simp

lemma StopCapture_idle: "\<not> is_capturing' (fst s) \<Longrightarrow> StopCapture s = s"
  by (cases s) simp

lemma StopCapture_not_capturing: "\<not> is_capturing' (fst (StopCapture s))"
  by (cases s) (simp add: Let_def split: option.splits prod.splits)

lemma linux_ok_idle:
  "linux_ok s \<Longrightarrow> \<not> is_capturing (fst s) \<Longrightarrow>
     held (snd s) = [] \<and> record_display (fst s) = None \<and> record_context (fst s) = 0"
  by (cases s) simp

lemma linux_ok_running:
  "linux_ok s \<Longrightarrow> is_capturing (fst s) \<Longrightarrow>
     \<exists>d. record_display (fst s) = Some d \<and> record_context (fst s) \<noteq> 0 \<and>
         held (snd s) =
           [Thread (record_thread (fst s)), Context (record_context (fst s)), Display d]"
  by (cases s) (auto split: option.splits)

lemma windows_ok_idle:
  "windows_ok s \<Longrightarrow> \<not> is_capturing' (fst s) \<Longrightarrow>
     hooks (snd s) = [] \<and> keyboard_hook' (fst s) = None \<and> mouse_hook' (fst s) = None"
  by (cases s) simp

lemma windows_ok_running:
  "windows_ok s \<Longrightarrow> is_capturing' (fst s) \<Longrightarrow>
     \<exists>kh mh. keyboard_hook' (fst s) = Some kh \<and> mouse_hook' (fst s) = Some mh \<and>
         hooks (snd s) = [Hook WH_MOUSE_LL mh, Hook WH_KEYBOARD_LL kh]"
  by (cases s) (auto split: option.splits)

subsection \<open>Start and stop sequences\<close>

text \<open>
  Claim C1. After any finite sequence of start and stop calls from the initial state, on
  either platform: when the controller is not capturing, nothing is held (no record
  display, no record context, no worker; no hook), the handle fields are cleared, and a
  stop call changes nothing; when it is capturing, exactly the session's resources are
  held, each once, and a start call changes nothing and acquires nothing. Stopping
  twice is stopping once, and a start call after a start that left the controller
  capturing changes nothing.
\<close>

theorem idle_holds_nothing_and_calls_are_idempotent:
  fixes cs :: "linux_call list" and wcs :: "windows_call list"
  shows
  "(let s = run_linux cs (input_capture_plugin_register_with_registrar dpy handler, os_init)
    in (\<not> is_capturing (fst s) \<longrightarrow>
          held (snd s) = [] \<and> record_display (fst s) = None \<and> record_context (fst s) = 0 \<and>
          stop_capture s = s) \<and>
       (is_capturing (fst s) \<longrightarrow>
          (\<exists>d. record_display (fst s) = Some d \<and>
               held (snd s) =
                 [Thread (record_thread (fst s)), Context (record_context (fst s)), Display d]) \<and>
          start_capture env s = s) \<and>
       stop_capture (stop_capture s) = stop_capture s \<and>
       (is_capturing (fst (start_capture env s)) \<longrightarrow>
          start_capture env' (start_capture env s) = start_capture env s)) \<and>
   (let t = run_windows wcs (WinPlugin_init, win_os_init)
    in (\<not> is_capturing' (fst t) \<longrightarrow>
          hooks (snd t) = [] \<and> keyboard_hook' (fst t) = None \<and> mouse_hook' (fst t) = None \<and>
          StopCapture t = t) \<and>
       (is_capturing' (fst t) \<longrightarrow>
          (\<exists>kh mh. keyboard_hook' (fst t) = Some kh \<and> mouse_hook' (fst t) = Some mh \<and>
               hooks (snd t) = [Hook WH_MOUSE_LL mh, Hook WH_KEYBOARD_LL kh]) \<and>
          StartCapture wenv t = (True, t)) \<and>
       StopCapture (StopCapture t) = StopCapture t \<and>
       (is_capturing' (fst (snd (StartCapture wenv t))) \<longrightarrow>
          StartCapture wenv' (snd (StartCapture wenv t)) = (True, snd (StartCapture wenv t))))"
proof -
  define s where "s = run_linux cs (input_capture_plugin_register_with_registrar dpy handler, os_init)"
  define t where "t = run_windows wcs (WinPlugin_init, win_os_init)"
  have ok: "linux_ok s" unfolding s_def by (rule run_linux_ok [OF init_ok])
  have wok: "windows_ok t" unfolding t_def by (rule run_windows_ok [OF win_init_ok])
  have l1: "\<not> is_capturing (fst s) \<longrightarrow>
          held (snd s) = [] \<and> record_display (fst s) = None \<and> record_context (fst s) = 0 \<and>
          stop_capture s = s"
    using linux_ok_idle [OF ok] stop_capture_idle by blast
  have l2: "is_capturing (fst s) \<longrightarrow>
          (\<exists>d. record_display (fst s) = Some d \<and>
               held (snd s) =
                 [Thread (record_thread (fst s)), Context (record_context (fst s)), Display d]) \<and>
          start_capture env s = s"
    using linux_ok_running [OF ok] start_capture_running by blast
  have l3: "stop_capture (stop_capture s) = stop_capture s"
    by (rule stop_capture_idle [OF stop_capture_not_capturing])
  have l4: "is_capturing (fst (start_capture env s)) \<longrightarrow>
          start_capture env' (start_capture env s) = start_capture env s"
    using start_capture_running by blast
  have w1: "\<not> is_capturing' (fst t) \<longrightarrow>
          hooks (snd t) = [] \<and> keyboard_hook' (fst t) = None \<and> mouse_hook' (fst t) = None \<and>
          StopCapture t = t"
    using windows_ok_idle [OF wok] StopCapture_idle by blast
  have w2: "is_capturing' (fst t) \<longrightarrow>
          (\<exists>kh mh. keyboard_hook' (fst t) = Some kh \<and> mouse_hook' (fst t) = Some mh \<and>
               hooks (snd t) = [Hook WH_MOUSE_LL mh, Hook WH_KEYBOARD_LL kh]) \<and>
          StartCapture wenv t = (True, t)"
    using windows_ok_running [OF wok] StartCapture_running by blast
  have w3: "StopCapture (StopCapture t) = StopCapture t"
    by (rule StopCapture_idle [OF StopCapture_not_capturing])
  have w4: "is_capturing' (fst (snd (StartCapture wenv t))) \<longrightarrow>
          StartCapture wenv' (snd (StartCapture wenv t)) = (True, snd (StartCapture wenv t))"
    using StartCapture_running by blast
  from l1 l2 l3 l4 w1 w2 w3 w4 show ?thesis
    unfolding Let_def s_def t_def by blast
qed


theorem idle_holds_nothing_witness:
  "(let s = run_linux [Start all_succeed, Start all_succeed, Stop, Stop, Start no_thread] registered
    in \<not> is_capturing (fst s) \<and> held (snd s) = [] \<and> stop_capture s = s \<and>
       stop_capture (stop_capture s) = stop_capture s) \<and>
   (let s = run_linux [Start no_thread, Stop, Start all_succeed] registered
    in is_capturing (fst s) \<and> held (snd s) = [Thread 14, Context 13, Display 11] \<and>
       start_capture no_thread s = s \<and>
       start_capture all_succeed (start_capture no_thread s) = start_capture no_thread s) \<and>
   (let t = run_windows [WStart both_hooks, WStart both_hooks, WStop, WStop, WStart no_mouse_hook]
              constructed
    in \<not> is_capturing' (fst t) \<and> hooks (snd t) = [] \<and> StopCapture t = t) \<and>
   (let t = run_windows [WStart no_mouse_hook, WStop, WStart both_hooks] constructed
    in is_capturing' (fst t) \<and> hooks (snd t) = [Hook WH_MOUSE_LL 22, Hook WH_KEYBOARD_LL 21] \<and>
       StartCapture no_mouse_hook t = (True, t))"
  using
    idle_holds_nothing_and_calls_are_idempotent
      [of "[Start all_succeed, Start all_succeed, Stop, Stop, Start no_thread]" "Some 1" "Some 2"
          all_succeed all_succeed
          "[WStart both_hooks, WStart both_hooks, WStop, WStop, WStart no_mouse_hook]"
          both_hooks both_hooks]
    idle_holds_nothing_and_calls_are_idempotent
      [of "[Start no_thread, Stop, Start all_succeed]" "Some 1" "Some 2" no_thread all_succeed
          "[WStart no_mouse_hook, WStop, WStart both_hooks]" no_mouse_hook both_hooks]
  by (simp add: samples os_ops win_ops Let_def)

subsection \<open>A failed start\<close>

lemma start_capture_calls:
  assumes "\<not> is_capturing self"
  shows "new_calls w (snd (start_capture env (self, w))) =
           (case XOpenDisplay_result env of
              None \<Rightarrow> [Call_XOpenDisplay None]
            | Some d \<Rightarrow>
                (case XRecordAllocRange_result env of
                   None \<Rightarrow> [Call_XOpenDisplay (Some d), Call_XRecordAllocRange None,
                             Call_XCloseDisplay d]
                 | Some a \<Rightarrow>
                     (let c = XRecordCreateContext_result env;
                          ret = pthread_create_result env;
                          t = pthread_create_thread env
                      in if c = 0
                         then [Call_XOpenDisplay (Some d), Call_XRecordAllocRange (Some a),
                               Call_XRecordCreateContext d 0, Call_XFree a,
                               Call_XCloseDisplay d]
                         else if ret \<noteq> 0
                         then [Call_XOpenDisplay (Some d), Call_XRecordAllocRange (Some a),
                               Call_XRecordCreateContext d c, Call_XFree a,
                               Call_pthread_create ret t, Call_XRecordFreeContext (Some d) c,
                               Call_XCloseDisplay d]
                         else [Call_XOpenDisplay (Some d), Call_XRecordAllocRange (Some a),
                               Call_XRecordCreateContext d c, Call_XFree a,
                               Call_pthread_create 0 t])))"
  using assms by (auto simp: os_ops new_calls_def Let_def split: option.splits)

lemma start_capture_rolled_back:
  assumes "\<not> is_capturing self" and "start_fails env"
  shows "rolled_back (new_calls w (snd (start_capture env (self, w)))) []"
  unfolding start_capture_calls [OF assms(1)] using assms(2)
  by (auto simp: start_fails_def held_after_def Let_def split: option.splits)

lemma start_capture_fails:
  assumes "\<not> is_capturing self" and "held w = []" and "start_fails env"
  shows "\<not> is_capturing (fst (start_capture env (self, w))) \<and>
         record_display (fst (start_capture env (self, w))) = None \<and>
         held (snd (start_capture env (self, w))) = []"
  using assms by (auto simp: start_fails_def os_ops Let_def split: option.splits)

lemma StartCapture_calls:
  assumes "\<not> is_capturing' self"
  shows "new_win_calls w (snd (snd (StartCapture env (self, w)))) =
           (case keyboard_SetWindowsHookEx_result env of
              None \<Rightarrow> [Call_SetWindowsHookEx WH_KEYBOARD_LL None]
            | Some kh \<Rightarrow>
                (case mouse_SetWindowsHookEx_result env of
                   None \<Rightarrow> [Call_SetWindowsHookEx WH_KEYBOARD_LL (Some kh),
                             Call_SetWindowsHookEx WH_MOUSE_LL None,
                             Call_UnhookWindowsHookEx kh]
                 | Some mh \<Rightarrow> [Call_SetWindowsHookEx WH_KEYBOARD_LL (Some kh),
                                Call_SetWindowsHookEx WH_MOUSE_LL (Some mh)]))"
  using assms by (auto simp: win_ops new_win_calls_def Let_def split: option.splits)

lemma StartCapture_fails:
  assumes "\<not> is_capturing' self" and "hooks w = []" and "win_start_fails env"
  shows "\<not> fst (StartCapture env (self, w)) \<and>
         \<not> is_capturing' (fst (snd (StartCapture env (self, w)))) \<and>
         keyboard_hook' (fst (snd (StartCapture env (self, w)))) = None \<and>
         hooks (snd (snd (StartCapture env (self, w)))) = []"
  using assms by (auto simp: win_start_fails_def win_ops Let_def split: option.splits)

lemma StartCapture_rolled_back:
  assumes "\<not> is_capturing' self" and "win_start_fails env"
  shows "win_rolled_back (new_win_calls w (snd (snd (StartCapture env (self, w))))) []"
  unfolding StartCapture_calls [OF assms(1)] using assms(2)
  by (auto simp: win_start_fails_def split: option.splits)

text \<open>
  Claim C3. If some acquisition of a start attempt fails (the record display, the record
  range, the record context or the worker on one platform; the keyboard or the mouse
  hook on the other), the attempt reports failure and leaves the controller not
  capturing with nothing held; the calls after the failed acquisition release exactly
  what was held at that point, the most recently acquired first. The calls of each
  failing attempt are listed: the record range is freed as soon as the context call
  has returned, a failed worker is followed by freeing the context and closing the
  display, and a failed mouse hook by removing the keyboard hook.
\<close>

theorem failed_start_releases_in_reverse_and_stays_idle:
  "(\<not> is_capturing self \<and> held w = [] \<and> start_fails env \<longrightarrow>
      (case method_call_cb env ''startCapture'' (self, w) of
         (response, self', w') \<Rightarrow>
           response = Success (FlBool False) \<and> \<not> is_capturing self' \<and>
           record_display self' = None \<and> held w' = [] \<and>
           rolled_back (new_calls w w') [] \<and>
           new_calls w w' =
             (case XOpenDisplay_result env of
                None \<Rightarrow> [Call_XOpenDisplay None]
              | Some d \<Rightarrow>
                  (case XRecordAllocRange_result env of
                     None \<Rightarrow> [Call_XOpenDisplay (Some d), Call_XRecordAllocRange None,
                               Call_XCloseDisplay d]
                   | Some a \<Rightarrow>
                       if XRecordCreateContext_result env = 0
                       then [Call_XOpenDisplay (Some d), Call_XRecordAllocRange (Some a),
                             Call_XRecordCreateContext d 0, Call_XFree a, Call_XCloseDisplay d]
                       else [Call_XOpenDisplay (Some d), Call_XRecordAllocRange (Some a),
                             Call_XRecordCreateContext d (XRecordCreateContext_result env),
                             Call_XFree a,
                             Call_pthread_create (pthread_create_result env)
                               (pthread_create_thread env),
                             Call_XRecordFreeContext (Some d) (XRecordCreateContext_result env),
                             Call_XCloseDisplay d])))) \<and>
   (\<not> is_capturing' wself \<and> hooks ww = [] \<and> win_start_fails wenv \<longrightarrow>
      fst (HandleMethodCall wenv ''startCapture'' (wself, ww)) = Success (FlBool False) \<and>
      (case StartCapture wenv (wself, ww) of
         (success, wself', ww') \<Rightarrow>
           \<not> success \<and> \<not> is_capturing' wself' \<and> keyboard_hook' wself' = None \<and>
           hooks ww' = [] \<and> win_rolled_back (new_win_calls ww ww') [] \<and>
           new_win_calls ww ww' =
             (case keyboard_SetWindowsHookEx_result wenv of
                None \<Rightarrow> [Call_SetWindowsHookEx WH_KEYBOARD_LL None]
              | Some kh \<Rightarrow> [Call_SetWindowsHookEx WH_KEYBOARD_LL (Some kh),
                             Call_SetWindowsHookEx WH_MOUSE_LL None,
                             Call_UnhookWindowsHookEx kh])))"
proof (intro conjI impI)
  assume a: "\<not> is_capturing self \<and> held w = [] \<and> start_fails env"
  obtain self' w' where s': "start_capture env (self, w) = (self', w')"
    by (cases "start_capture env (self, w)")
  from a have "new_calls w (snd (start_capture env (self, w))) =
             (case XOpenDisplay_result env of
                None \<Rightarrow> [Call_XOpenDisplay None]
              | Some d \<Rightarrow>
                  (case XRecordAllocRange_result env of
                     None \<Rightarrow> [Call_XOpenDisplay (Some d), Call_XRecordAllocRange None,
                               Call_XCloseDisplay d]
                   | Some a \<Rightarrow>
                       if XRecordCreateContext_result env = 0
                       then [Call_XOpenDisplay (Some d), Call_XRecordAllocRange (Some a),
                             Call_XRecordCreateContext d 0, Call_XFree a, Call_XCloseDisplay d]
                       else [Call_XOpenDisplay (Some d), Call_XRecordAllocRange (Some a),
                             Call_XRecordCreateContext d (XRecordCreateContext_result env),
                             Call_XFree a,
                             Call_pthread_create (pthread_create_result env)
                               (pthread_create_thread env),
                             Call_XRecordFreeContext (Some d) (XRecordCreateContext_result env),
                             Call_XCloseDisplay d]))"
    unfolding start_capture_calls [of self w env, OF conjunct1 [OF a]]
    by (auto simp: start_fails_def Let_def split: option.splits)
  with a start_capture_fails [of self w env] start_capture_rolled_back [of self env w]
  show "case method_call_cb env ''startCapture'' (self, w) of
         (response, self', w') \<Rightarrow>
           response = Success (FlBool False) \<and> \<not> is_capturing self' \<and>
           record_display self' = None \<and> held w' = [] \<and>
           rolled_back (new_calls w w') [] \<and>
           new_calls w w' =
             (case XOpenDisplay_result env of
                None \<Rightarrow> [Call_XOpenDisplay None]
              | Some d \<Rightarrow>
                  (case XRecordAllocRange_result env of
                     None \<Rightarrow> [Call_XOpenDisplay (Some d), Call_XRecordAllocRange None,
                               Call_XCloseDisplay d]
                   | Some a \<Rightarrow>
                       if XRecordCreateContext_result env = 0
                       then [Call_XOpenDisplay (Some d), Call_XRecordAllocRange (Some a),
                             Call_XRecordCreateContext d 0, Call_XFree a, Call_XCloseDisplay d]
                       else [Call_XOpenDisplay (Some d), Call_XRecordAllocRange (Some a),
                             Call_XRecordCreateContext d (XRecordCreateContext_result env),
                             Call_XFree a,
                             Call_pthread_create (pthread_create_result env)
                               (pthread_create_thread env),
                             Call_XRecordFreeContext (Some d) (XRecordCreateContext_result env),
                             Call_XCloseDisplay d]))"
    by (simp add: method_call_cb_def s' del: start_capture.simps)
next
  assume a: "\<not> is_capturing' wself \<and> hooks ww = [] \<and> win_start_fails wenv"
  obtain ok wself' ww' where s': "StartCapture wenv (wself, ww) = (ok, wself', ww')"
    by (cases "StartCapture wenv (wself, ww)")
  from a have c: "new_win_calls ww (snd (snd (StartCapture wenv (wself, ww)))) =
             (case keyboard_SetWindowsHookEx_result wenv of
                None \<Rightarrow> [Call_SetWindowsHookEx WH_KEYBOARD_LL None]
              | Some kh \<Rightarrow> [Call_SetWindowsHookEx WH_KEYBOARD_LL (Some kh),
                             Call_SetWindowsHookEx WH_MOUSE_LL None,
                             Call_UnhookWindowsHookEx kh])"
    unfolding StartCapture_calls [of wself ww wenv, OF conjunct1 [OF a]]
    by (auto simp: win_start_fails_def split: option.splits)
  from a StartCapture_fails [of wself ww wenv]
  show "fst (HandleMethodCall wenv ''startCapture'' (wself, ww)) = Success (FlBool False)"
    by (simp add: HandleMethodCall_def s' del: StartCapture.simps)
  from a c StartCapture_fails [of wself ww wenv] StartCapture_rolled_back [of wself wenv ww]
  show "case StartCapture wenv (wself, ww) of
         (success, wself', ww') \<Rightarrow>
           \<not> success \<and> \<not> is_capturing' wself' \<and> keyboard_hook' wself' = None \<and>
           hooks ww' = [] \<and> win_rolled_back (new_win_calls ww ww') [] \<and>
           new_win_calls ww ww' =
             (case keyboard_SetWindowsHookEx_result wenv of
                None \<Rightarrow> [Call_SetWindowsHookEx WH_KEYBOARD_LL None]
              | Some kh \<Rightarrow> [Call_SetWindowsHookEx WH_KEYBOARD_LL (Some kh),
                             Call_SetWindowsHookEx WH_MOUSE_LL None,
                             Call_UnhookWindowsHookEx kh])"
    by (simp add: s' del: StartCapture.simps)
qed

theorem failed_start_witness:
  "start_fails no_thread \<and> win_start_fails no_mouse_hook \<and>
   method_call_cb no_thread ''startCapture'' registered =
     (Success (FlBool False), fst registered,
      \<lparr>held = [],
       calls = [Call_XOpenDisplay (Some 11), Call_XRecordAllocRange (Some 12),
                Call_XRecordCreateContext 11 13, Call_XFree 12, Call_pthread_create 11 14,
                Call_XRecordFreeContext (Some 11) 13, Call_XCloseDisplay 11]\<rparr>) \<and>
   rolled_back (new_calls (snd registered)
                  (snd (snd (method_call_cb no_thread ''startCapture'' registered)))) [] \<and>
   StartCapture no_mouse_hook constructed =
     (False, fst constructed,
      \<lparr>hooks = [],
       win_calls = [Call_SetWindowsHookEx WH_KEYBOARD_LL (Some 21),
                    Call_SetWindowsHookEx WH_MOUSE_LL None, Call_UnhookWindowsHookEx 21]\<rparr>)"
  using failed_start_releases_in_reverse_and_stays_idle
          [of "fst registered" "snd registered" no_thread "fst constructed" "snd constructed"
              no_mouse_hook]
  by (simp add: samples os_ops win_ops Let_def start_fails_def win_start_fails_def
        method_call_cb_def new_calls_def held_after_def)


subsection \<open>The order of the calls in a stop\<close>

lemma stop_capture_running:
  assumes "is_capturing self" and "record_context self \<noteq> 0" and "record_display self = Some d"
  shows "stop_capture (self, w) =
           (self\<lparr>is_capturing := False, thread_running := False, record_context := 0,
                 record_display := None\<rparr>,
            w\<lparr>held := remove1 (Display d) (remove1 (Thread (record_thread self))
                        (remove1 (Context (record_context self)) (held w))),
              calls := calls w @
                [Call_XRecordDisableContext (display self) (record_context self),
                 Call_XRecordFreeContext (display self) (record_context self),
                 Call_pthread_join (record_thread self),
                 Call_XCloseDisplay d]\<rparr>)"
  using assms by (simp add: os_ops Let_def)

text \<open>
  Claim C4, as stated: stop releases no resource before the worker has been joined. In
  the session below the record context is freed before the join.
\<close>

theorem stop_frees_context_then_joins_then_closes_display_counterexample:
  "released_before_join
     (new_calls (snd (start_capture all_succeed registered))
        (snd (stop_capture (start_capture all_succeed registered)))) \<noteq> []"
  by (simp add: samples os_ops Let_def new_calls_def)

text \<open>
  Claim C4, amended. In every running state the calls can reach, stop disables the record
  context and frees it, then joins the worker, and only then closes the record display
  connection: the record context is the one resource released before the join. When
  stop returns the worker has been joined, nothing is held and the controller is not
  capturing.
\<close>

theorem stop_frees_context_then_joins_then_closes_display:
  "(let s = run_linux cs (input_capture_plugin_register_with_registrar dpy handler, os_init)
    in is_capturing (fst s) \<longrightarrow>
         (\<exists>d. record_display (fst s) = Some d \<and>
              new_calls (snd s) (snd (stop_capture s)) =
                [Call_XRecordDisableContext (display (fst s)) (record_context (fst s)),
                 Call_XRecordFreeContext (display (fst s)) (record_context (fst s)),
                 Call_pthread_join (record_thread (fst s)),
                 Call_XCloseDisplay d] \<and>
              released_before_join (new_calls (snd s) (snd (stop_capture s))) =
                [Context (record_context (fst s))]) \<and>
         held (snd s) \<noteq> [] \<and>
         held (snd (stop_capture s)) = [] \<and>
         \<not> is_capturing (fst (stop_capture s)))"
proof -
  define s where "s = run_linux cs (input_capture_plugin_register_with_registrar dpy handler, os_init)"
  have ok: "linux_ok s" unfolding s_def by (rule run_linux_ok [OF init_ok])
  have "is_capturing (fst s) \<longrightarrow>
         (\<exists>d. record_display (fst s) = Some d \<and>
              new_calls (snd s) (snd (stop_capture s)) =
                [Call_XRecordDisableContext (display (fst s)) (record_context (fst s)),
                 Call_XRecordFreeContext (display (fst s)) (record_context (fst s)),
                 Call_pthread_join (record_thread (fst s)),
                 Call_XCloseDisplay d] \<and>
              released_before_join (new_calls (snd s) (snd (stop_capture s))) =
                [Context (record_context (fst s))]) \<and>
         held (snd s) \<noteq> [] \<and>
         held (snd (stop_capture s)) = [] \<and>
         \<not> is_capturing (fst (stop_capture s))"
  proof
    assume run: "is_capturing (fst s)"
    obtain self w where sw: "s = (self, w)" by (cases s)
    from linux_ok_running [OF ok run] sw obtain d where
      d: "record_display self = Some d" and c: "record_context self \<noteq> 0" and
      h: "held w = [Thread (record_thread self), Context (record_context self), Display d]"
      by auto
    from run sw have r: "is_capturing self" by simp
    show "(\<exists>d. record_display (fst s) = Some d \<and>
              new_calls (snd s) (snd (stop_capture s)) =
                [Call_XRecordDisableContext (display (fst s)) (record_context (fst s)),
                 Call_XRecordFreeContext (display (fst s)) (record_context (fst s)),
                 Call_pthread_join (record_thread (fst s)),
                 Call_XCloseDisplay d] \<and>
              released_before_join (new_calls (snd s) (snd (stop_capture s))) =
                [Context (record_context (fst s))]) \<and>
         held (snd s) \<noteq> [] \<and>
         held (snd (stop_capture s)) = [] \<and>
         \<not> is_capturing (fst (stop_capture s))"
      unfolding sw stop_capture_running [OF r c d]
      by (simp add: d h new_calls_def)
  qed
  then show ?thesis unfolding Let_def s_def .
qed

theorem stop_order_witness:
  "is_capturing (fst (run_linux [Start all_succeed] registered)) \<and>
   new_calls (snd (run_linux [Start all_succeed] registered))
     (snd (stop_capture (run_linux [Start all_succeed] registered))) =
     [Call_XRecordDisableContext (Some 1) 13, Call_XRecordFreeContext (Some 1) 13,
      Call_pthread_join 14, Call_XCloseDisplay 11] \<and>
   held (snd (stop_capture (run_linux [Start all_succeed] registered))) = []"
  using stop_frees_context_then_joins_then_closes_display
          [of "[Start all_succeed]" "Some 1" "Some 2"]
  by (simp add: samples os_ops Let_def new_calls_def)

subsection \<open>The method channel's answers\<close>

text \<open>
  Claim C7. On both platforms \<open>startCapture\<close> answers with a boolean that is the capture
  flag after the call, and when capture is already running it changes nothing and
  answers true; \<open>stopCapture\<close> answers true, and after it the capture flag is off and
  \<open>isCapturing\<close> answers false.
\<close>

theorem start_reports_capture_state_and_stop_reports_true:
  "(case method_call_cb env ''startCapture'' s of
      (response, s') \<Rightarrow>
        response = Success (FlBool (is_capturing (fst s'))) \<and>
        (is_capturing (fst s) \<longrightarrow> s' = s \<and> response = Success (FlBool True))) \<and>
   (case method_call_cb env ''stopCapture'' s of
      (response, s') \<Rightarrow>
        response = Success (FlBool True) \<and> \<not> is_capturing (fst s') \<and>
        method_call_cb env' ''isCapturing'' s' = (Success (FlBool False), s')) \<and>
   (case HandleMethodCall wenv ''startCapture'' t of
      (response, t') \<Rightarrow>
        response = Success (FlBool (is_capturing' (fst t'))) \<and>
        (is_capturing' (fst t) \<longrightarrow> t' = t \<and> response = Success (FlBool True))) \<and>
   (case HandleMethodCall wenv ''stopCapture'' t of
      (response, t') \<Rightarrow>
        response = Success (FlBool True) \<and> \<not> is_capturing' (fst t') \<and>
        HandleMethodCall wenv' ''isCapturing'' t' = (Success (FlBool False), t'))"
proof (intro conjI)
  show "case method_call_cb env ''startCapture'' s of
      (response, s') \<Rightarrow>
        response = Success (FlBool (is_capturing (fst s'))) \<and>
        (is_capturing (fst s) \<longrightarrow> s' = s \<and> response = Success (FlBool True))"
    by (simp add: method_call_cb_def Let_def start_capture_running del: start_capture.simps)
  show "case method_call_cb env ''stopCapture'' s of
      (response, s') \<Rightarrow>
        response = Success (FlBool True) \<and> \<not> is_capturing (fst s') \<and>
        method_call_cb env' ''isCapturing'' s' = (Success (FlBool False), s')"
    using stop_capture_not_capturing [of s]
    by (simp add: method_call_cb_def del: stop_capture.simps)
  show "case HandleMethodCall wenv ''startCapture'' t of
      (response, t') \<Rightarrow>
        response = Success (FlBool (is_capturing' (fst t'))) \<and>
        (is_capturing' (fst t) \<longrightarrow> t' = t \<and> response = Success (FlBool True))"
    by (cases t) (auto simp: HandleMethodCall_def Let_def split: option.splits)
  show "case HandleMethodCall wenv ''stopCapture'' t of
      (response, t') \<Rightarrow>
        response = Success (FlBool True) \<and> \<not> is_capturing' (fst t') \<and>
        HandleMethodCall wenv' ''isCapturing'' t' = (Success (FlBool False), t')"
    using StopCapture_not_capturing [of t]
    by (simp add: HandleMethodCall_def del: StopCapture.simps)
qed


theorem start_stop_responses_witness:
  "method_call_cb all_succeed ''startCapture'' registered =
     (Success (FlBool True), start_capture all_succeed registered) \<and>
   is_capturing (fst (start_capture all_succeed registered)) \<and>
   method_call_cb no_thread ''startCapture'' (start_capture all_succeed registered) =
     (Success (FlBool True), start_capture all_succeed registered) \<and>
   fst (method_call_cb no_thread ''startCapture'' registered) = Success (FlBool False) \<and>
   fst (method_call_cb no_thread ''stopCapture'' (start_capture all_succeed registered)) =
     Success (FlBool True) \<and>
   fst (HandleMethodCall both_hooks ''startCapture'' constructed) = Success (FlBool True) \<and>
   fst (HandleMethodCall no_mouse_hook ''startCapture'' constructed) = Success (FlBool False) \<and>
   HandleMethodCall no_mouse_hook ''startCapture'' (snd (StartCapture both_hooks constructed)) =
     (Success (FlBool True), snd (StartCapture both_hooks constructed))"
  using start_reports_capture_state_and_stop_reports_true
          [where env = no_thread and s = "start_capture all_succeed registered" and
             env' = all_succeed and wenv = no_mouse_hook and
             t = "snd (StartCapture both_hooks constructed)" and wenv' = both_hooks]
  by (simp add: samples os_ops win_ops Let_def method_call_cb_def HandleMethodCall_def)

section \<open>Properties of the decoders\<close>

subsection \<open>What each record is decoded to\<close>

lemmas fl_ops = fl_value_set_string_take_def fl_value_remove_def fl_value_append_take_def
  field_names_def field_of_def

lemma scroll_button_cases:
  fixes b :: "8 word"
  assumes "4 \<le> b" and "b \<le> 7"
  shows "b = 4 \<or> b = 5 \<or> b = 6 \<or> b = 7"
  using assms by uint_arith

lemma button_record_decoded:
  assumes "category d = XRecordFromServer"
    and "unat (data d 0 AND 0x7F) = ButtonPress \<or> unat (data d 0 AND 0x7F) = ButtonRelease"
    and "event_handler self \<noteq> None"
  shows "record_event_callback km now self d chan =
           chan @ [if 4 \<le> data d 1 \<and> data d 1 \<le> 7 then
                     [(''timestamp'', FlInt (int (now div 1000))),
                      (''type'', FlString ''mouseScroll''),
                      (''x'', FlFloat (real_of_int (read_int16 (data d) 24))),
                      (''y'', FlFloat (real_of_int (read_int16 (data d) 26))),
                      (''deltaX'', FlFloat (if data d 1 = 6 then 1 else if data d 1 = 7 then - 1 else 0)),
                      (''deltaY'', FlFloat (if data d 1 = 4 then 1 else if data d 1 = 5 then - 1 else 0))]
                   else
                     [(''timestamp'', FlInt (int (now div 1000))),
                      (''type'', FlString (if unat (data d 0 AND 0x7F) = ButtonPress
                                           then ''mouseDown'' else ''mouseUp'')),
                      (''button'', FlString (if data d 1 = 1 then ''left''
                                             else if data d 1 = 2 then ''middle''
                                             else if data d 1 = 3 then ''right'' else ''other'')),
                      (''x'', FlFloat (real_of_int (read_int16 (data d) 24))),
                      (''y'', FlFloat (real_of_int (read_int16 (data d) 26)))]]"
  using assms
  by (auto simp: record_event_callback_def send_event_to_dart_def fl_ops Let_def)


lemma key_record_decoded:
  assumes "category d = XRecordFromServer"
    and "unat (data d 0 AND 0x7F) = KeyPress \<or> unat (data d 0 AND 0x7F) = KeyRelease"
    and "event_handler self \<noteq> None"
  shows "\<exists>modifiers.
           record_event_callback km now self d chan =
             chan @ [[(''timestamp'', FlInt (int (now div 1000))),
                      (''type'', FlString (if unat (data d 0 AND 0x7F) = KeyPress
                                           then ''keyDown'' else ''keyUp'')),
                      (''keyCode'', FlInt (uint (data d 1))),
                      (''key'', FlString (keycode_to_string (km (data d 1)))),
                      (''modifiers'', FlList modifiers)]]"
  using assms
  by (auto simp: record_event_callback_def send_event_to_dart_def fl_ops Let_def)

lemma motion_record_decoded:
  assumes "category d = XRecordFromServer"
    and "unat (data d 0 AND 0x7F) = MotionNotify"
    and "event_handler self \<noteq> None"
  shows "record_event_callback km now self d chan =
           chan @ [[(''timestamp'', FlInt (int (now div 1000))),
                    (''type'', FlString ''mouseMove''),
                    (''x'', FlFloat (real_of_int (read_int16 (data d) 24))),
                    (''y'', FlFloat (real_of_int (read_int16 (data d) 26)))]]"
  using assms
  by (simp add: record_event_callback_def send_event_to_dart_def fl_ops Let_def)

lemma unrecognised_record_dropped:
  assumes "unat (data d 0 AND 0x7F) \<notin> {KeyPress, KeyRelease, ButtonPress, ButtonRelease, MotionNotify}"
  shows "record_event_callback km now self d chan = chan"
  using assms by (simp add: record_event_callback_def Let_def)

lemma foreign_record_dropped:
  assumes "category d \<noteq> XRecordFromServer"
  shows "record_event_callback km now self d chan = chan"
  using assms by (simp add: record_event_callback_def)

lemma KeyboardHookProc_consumes:
  assumes "0 \<le> nCode" and "event_sink' self = Some sink"
  shows "\<exists>modifiers.
           KeyboardHookProc gaks ft (Some self) nCode wParam kb delivered =
             (Return (- 1),
              delivered @
                [(sink, [(''timestamp'', FlInt (GetTimestamp ft)),
                         (''type'', FlString (if wParam = WM_KEYDOWN \<or> wParam = WM_SYSKEYDOWN
                                              then ''keyDown'' else ''keyUp'')),
                         (''keyCode'', FlInt (sint (vkCode kb))),
                         (''key'', FlString (VKeyToString (vkCode kb))),
                         (''modifiers'', FlList modifiers)])])"
  using assms
  by (auto simp: KeyboardHookProc_def sink_attached_def instance_SendEvent_def SendEvent_def
        fl_ops Let_def)

lemma KeyboardHookProc_forwards:
  assumes "nCode < 0 \<or> \<not> sink_attached inst"
  shows "KeyboardHookProc gaks ft inst nCode wParam kb delivered =
           (CallNextHookEx nCode wParam, delivered)"
  using assms by (auto simp: KeyboardHookProc_def)

lemma MouseHookProc_forwards:
  assumes "nCode < 0 \<or> \<not> sink_attached inst"
  shows "MouseHookProc ft inst nCode wParam ms delivered =
           (CallNextHookEx nCode wParam, delivered)"
  using assms by (auto simp: MouseHookProc_def)

lemma MouseHookProc_unknown:
  assumes "wParam \<notin> {WM_MOUSEMOVE, WM_LBUTTONDOWN, WM_LBUTTONUP, WM_RBUTTONDOWN, WM_RBUTTONUP,
                        WM_MBUTTONDOWN, WM_MBUTTONUP, WM_MOUSEWHEEL, WM_MOUSEHWHEEL}"
  shows "MouseHookProc ft inst nCode wParam ms delivered =
           (CallNextHookEx nCode wParam, delivered)"
  using assms by (simp add: MouseHookProc_def Let_def)

lemma MouseHookProc_consumes:
  assumes "0 \<le> nCode" and "event_sink' self = Some sink"
    and "wParam \<in> {WM_MOUSEMOVE, WM_LBUTTONDOWN, WM_LBUTTONUP, WM_RBUTTONDOWN, WM_RBUTTONUP,
                     WM_MBUTTONDOWN, WM_MBUTTONUP, WM_MOUSEWHEEL, WM_MOUSEHWHEEL}"
  shows "\<exists>event. MouseHookProc ft (Some self) nCode wParam ms delivered =
           (Return 1, delivered @ [(sink, event)])"
  using assms
  by (auto simp: MouseHookProc_def sink_attached_def instance_SendEvent_def SendEvent_def Let_def)

lemma MouseHookProc_move:
  assumes "0 \<le> nCode" and "event_sink' self = Some sink"
  shows "MouseHookProc ft (Some self) nCode WM_MOUSEMOVE ms delivered =
           (Return 1,
            delivered @
              [(sink, [(''timestamp'', FlInt (GetTimestamp ft)),
                       (''type'', FlString ''mouseMove''),
                       (''x'', FlFloat (real_of_int (sint (pt_x ms)))),
                       (''y'', FlFloat (real_of_int (sint (pt_y ms))))])])"
  using assms
  by (simp add: MouseHookProc_def sink_attached_def instance_SendEvent_def SendEvent_def
        fl_ops Let_def)

lemma MouseHookProc_wheel:
  assumes "0 \<le> nCode" and "event_sink' self = Some sink"
    and "wParam = WM_MOUSEWHEEL \<or> wParam = WM_MOUSEHWHEEL"
  shows "MouseHookProc ft (Some self) nCode wParam ms delivered =
           (Return 1,
            delivered @
              [(sink, [(''timestamp'', FlInt (GetTimestamp ft)),
                       (''type'', FlString ''mouseScroll''),
                       (''deltaX'', FlFloat
                          (if wParam = WM_MOUSEWHEEL then 0
                           else real_of_int (sint (ucast (drop_bit 16 (mouseData ms)) :: 16 word))
                                  / 120)),
                       (''deltaY'', FlFloat
                          (if wParam = WM_MOUSEWHEEL
                           then real_of_int (sint (ucast (drop_bit 16 (mouseData ms)) :: 16 word))
                                  / 120
                           else 0))])])"
  using assms
  by (auto simp: MouseHookProc_def sink_attached_def instance_SendEvent_def SendEvent_def
        fl_ops Let_def)

lemma MouseHookProc_button:
  assumes "0 \<le> nCode" and "event_sink' self = Some sink"
    and "wParam \<in> {WM_LBUTTONDOWN, WM_LBUTTONUP, WM_RBUTTONDOWN, WM_RBUTTONUP,
                     WM_MBUTTONDOWN, WM_MBUTTONUP}"
  shows "MouseHookProc ft (Some self) nCode wParam ms delivered =
           (Return 1,
            delivered @
              [(sink, [(''timestamp'', FlInt (GetTimestamp ft)),
                       (''type'', FlString
                          (if wParam \<in> {WM_LBUTTONDOWN, WM_RBUTTONDOWN, WM_MBUTTONDOWN}
                           then ''mouseDown'' else ''mouseUp'')),
                       (''button'', FlString
                          (if wParam \<in> {WM_LBUTTONDOWN, WM_LBUTTONUP} then ''left''
                           else if wParam \<in> {WM_RBUTTONDOWN, WM_RBUTTONUP} then ''right''
                           else ''middle'')),
                       (''x'', FlFloat (real_of_int (sint (pt_x ms)))),
                       (''y'', FlFloat (real_of_int (sint (pt_y ms))))])])"
  using assms
  by (auto simp: MouseHookProc_def sink_attached_def instance_SendEvent_def SendEvent_def
        button_event_def fl_ops Let_def)

subsection \<open>The fields of each event type\<close>

lemma key_event_field_names:
  assumes "category d = XRecordFromServer"
    and "unat (data d 0 AND 0x7F) = KeyPress \<or> unat (data d 0 AND 0x7F) = KeyRelease"
    and "event_handler self \<noteq> None"
  shows "map field_names (record_event_callback km now self d []) =
           [{''timestamp'', ''type'', ''keyCode'', ''key'', ''modifiers''}]"
proof -
  from key_record_decoded [OF assms, of km now "[]"] obtain modifiers where
    "record_event_callback km now self d [] =
       [[(''timestamp'', FlInt (int (now div 1000))),
         (''type'', FlString (if unat (data d 0 AND 0x7F) = KeyPress
                              then ''keyDown'' else ''keyUp'')),
         (''keyCode'', FlInt (uint (data d 1))),
         (''key'', FlString (keycode_to_string (km (data d 1)))),
         (''modifiers'', FlList modifiers)]]"
    by auto
  then show ?thesis by (simp add: field_names_def)
qed

lemma motion_event_field_names:
  assumes "category d = XRecordFromServer"
    and "unat (data d 0 AND 0x7F) = MotionNotify"
    and "event_handler self \<noteq> None"
  shows "map field_names (record_event_callback km now self d []) =
           [{''timestamp'', ''type'', ''x'', ''y''}]"
  by (simp add: motion_record_decoded [OF assms] field_names_def)

lemma button_event_field_names:
  assumes "category d = XRecordFromServer"
    and "unat (data d 0 AND 0x7F) = ButtonPress \<or> unat (data d 0 AND 0x7F) = ButtonRelease"
    and "event_handler self \<noteq> None"
  shows "map field_names (record_event_callback km now self d []) =
           [if 4 \<le> data d 1 \<and> data d 1 \<le> 7
            then {''timestamp'', ''type'', ''x'', ''y'', ''deltaX'', ''deltaY''}
            else {''timestamp'', ''type'', ''button'', ''x'', ''y''}]"
  by (simp add: button_record_decoded [OF assms] field_names_def)


lemma KeyboardHookProc_field_names:
  assumes "0 \<le> nCode" and "event_sink' self = Some sink"
  shows "map (field_names \<circ> snd) (snd (KeyboardHookProc gaks ft (Some self) nCode wParam kb [])) =
           [{''timestamp'', ''type'', ''keyCode'', ''key'', ''modifiers''}]"
proof -
  from KeyboardHookProc_consumes [OF assms, of gaks ft wParam kb "[]"] obtain modifiers where
    "KeyboardHookProc gaks ft (Some self) nCode wParam kb [] =
             (Return (- 1),
              [(sink, [(''timestamp'', FlInt (GetTimestamp ft)),
                         (''type'', FlString (if wParam = WM_KEYDOWN \<or> wParam = WM_SYSKEYDOWN
                                              then ''keyDown'' else ''keyUp'')),
                         (''keyCode'', FlInt (sint (vkCode kb))),
                         (''key'', FlString (VKeyToString (vkCode kb))),
                         (''modifiers'', FlList modifiers)])])"
    by auto
  then show ?thesis by (simp add: field_names_def)
qed

lemma MouseHookProc_field_names:
  assumes "0 \<le> nCode" and "event_sink' self = Some sink"
  shows "map (field_names \<circ> snd) (snd (MouseHookProc ft (Some self) nCode wParam ms [])) =
           (if wParam = WM_MOUSEMOVE then [{''timestamp'', ''type'', ''x'', ''y''}]
            else if wParam \<in> {WM_LBUTTONDOWN, WM_LBUTTONUP, WM_RBUTTONDOWN, WM_RBUTTONUP,
                               WM_MBUTTONDOWN, WM_MBUTTONUP}
            then [{''timestamp'', ''type'', ''button'', ''x'', ''y''}]
            else if wParam = WM_MOUSEWHEEL \<or> wParam = WM_MOUSEHWHEEL
            then [{''timestamp'', ''type'', ''deltaX'', ''deltaY''}]
            else [])"
proof -
  consider "wParam = WM_MOUSEMOVE"
    | "wParam \<in> {WM_LBUTTONDOWN, WM_LBUTTONUP, WM_RBUTTONDOWN, WM_RBUTTONUP,
                   WM_MBUTTONDOWN, WM_MBUTTONUP}"
    | "wParam = WM_MOUSEWHEEL \<or> wParam = WM_MOUSEHWHEEL"
    | "wParam \<notin> {WM_MOUSEMOVE, WM_LBUTTONDOWN, WM_LBUTTONUP, WM_RBUTTONDOWN, WM_RBUTTONUP,
                   WM_MBUTTONDOWN, WM_MBUTTONUP, WM_MOUSEWHEEL, WM_MOUSEHWHEEL}"
    by blast
  then show ?thesis
  proof cases
    case 1
    then show ?thesis by (simp add: MouseHookProc_move [OF assms] field_names_def)
  next
    case 2
    have "wParam \<noteq> WM_MOUSEMOVE" using 2 by auto
    then show ?thesis using 2 by (simp add: MouseHookProc_button [OF assms 2] field_names_def)
  next
    case 3
    have "wParam \<noteq> WM_MOUSEMOVE" "wParam \<notin> {WM_LBUTTONDOWN, WM_LBUTTONUP, WM_RBUTTONDOWN, WM_RBUTTONUP,
                   WM_MBUTTONDOWN, WM_MBUTTONUP}" using 3 by auto
    then show ?thesis using 3 by (simp add: MouseHookProc_wheel [OF assms 3] field_names_def)
  next
    case 4
    then show ?thesis by (simp add: MouseHookProc_unknown [OF 4])
  qed
qed

text \<open>
  Claim C2: every decoded event has exactly the fields of its type, key events
  \<open>keyCode\<close>, \<open>key\<close> and \<open>modifiers\<close> and no mouse field, move events \<open>x\<close> and \<open>y\<close>,
  scroll events \<open>deltaX\<close> and \<open>deltaY\<close> and neither \<open>button\<close> nor \<open>x\<close>, \<open>y\<close>. The lemmas
  above give the key, move and button events on both platforms as the claim has them
  (each event is built from an empty map, so nothing is left from an earlier event).
  The scroll events differ: for a wheel-up press record the record decoder sends an
  event that still has the \<open>x\<close> and \<open>y\<close> fields of the button event it was built from,
  where the hook decoder's scroll event has the two deltas only.
\<close>

theorem scroll_event_fields_differ_between_platforms:
  "map field_names
     (record_event_callback sample_keymap 5000 (fst registered) (sample_record 4 4) []) =
     [{''timestamp'', ''type'', ''x'', ''y'', ''deltaX'', ''deltaY''}] \<and>
   map (field_names \<circ> snd)
     (snd (MouseHookProc 0 (Some listening) 0 WM_MOUSEWHEEL sample_point [])) =
     [{''timestamp'', ''type'', ''deltaX'', ''deltaY''}]"
  by (simp add: record_event_callback_def send_event_to_dart_def fl_ops Let_def
        sample_record_def sample_bytes_def registered_def
        input_capture_plugin_register_with_registrar_def input_capture_plugin_init_def
        MouseHookProc_def sink_attached_def instance_SendEvent_def SendEvent_def
        listening_def WinPlugin_init_def)

subsection \<open>Scroll buttons\<close>

text \<open>
  Claim C5. A from-server button-press record whose button number is 4, 5, 6 or 7 is
  sent as an event of type \<open>mouseScroll\<close> with no \<open>button\<close> field, whose deltas are:
  button 4, \<open>deltaY = 1\<close>; button 5, \<open>deltaY = -1\<close>; button 6, \<open>deltaX = 1\<close>; button 7,
  \<open>deltaX = -1\<close>; the other delta is 0. (An event is sent when the handler pointer is
  set.)
\<close>

theorem scroll_buttons_decode_to_unit_scroll:
  assumes "category d = XRecordFromServer"
    and "unat (data d 0 AND 0x7F) = ButtonPress"
    and "4 \<le> data d 1" and "data d 1 \<le> 7"
    and "event_handler self \<noteq> None"
  shows "\<exists>event.
           record_event_callback km now self d chan = chan @ [event] \<and>
           field_of event ''type'' = Some (FlString ''mouseScroll'') \<and>
           ''button'' \<notin> field_names event \<and>
           field_of event ''deltaX'' =
             Some (FlFloat (if data d 1 = 6 then 1 else if data d 1 = 7 then - 1 else 0)) \<and>
           field_of event ''deltaY'' =
             Some (FlFloat (if data d 1 = 4 then 1 else if data d 1 = 5 then - 1 else 0)) \<and>
           (data d 1 = 4 \<or> data d 1 = 5 \<or> data d 1 = 6 \<or> data d 1 = 7)"
  using scroll_button_cases [OF assms(3,4)] assms(3,4)
  by (simp add: button_record_decoded [OF assms(1) disjI1 [OF assms(2)] assms(5)] fl_ops)

theorem scroll_buttons_witness:
  "record_event_callback sample_keymap 5000 (fst registered) (sample_record 4 4) [] =
     [[(''timestamp'', FlInt 5), (''type'', FlString ''mouseScroll''), (''x'', FlFloat 120),
       (''y'', FlFloat 340), (''deltaX'', FlFloat 0), (''deltaY'', FlFloat 1)]] \<and>
   record_event_callback sample_keymap 5000 (fst registered) (sample_record 4 5) [] =
     [[(''timestamp'', FlInt 5), (''type'', FlString ''mouseScroll''), (''x'', FlFloat 120),
       (''y'', FlFloat 340), (''deltaX'', FlFloat 0), (''deltaY'', FlFloat (- 1))]] \<and>
   record_event_callback sample_keymap 5000 (fst registered) (sample_record 4 6) [] =
     [[(''timestamp'', FlInt 5), (''type'', FlString ''mouseScroll''), (''x'', FlFloat 120),
       (''y'', FlFloat 340), (''deltaX'', FlFloat 1), (''deltaY'', FlFloat 0)]] \<and>
   record_event_callback sample_keymap 5000 (fst registered) (sample_record 4 7) [] =
     [[(''timestamp'', FlInt 5), (''type'', FlString ''mouseScroll''), (''x'', FlFloat 120),
       (''y'', FlFloat 340), (''deltaX'', FlFloat (- 1)), (''deltaY'', FlFloat 0)]]"
  using
    scroll_buttons_decode_to_unit_scroll
      [of "sample_record 4 4" "fst registered" sample_keymap 5000 "[]"]
    scroll_buttons_decode_to_unit_scroll
      [of "sample_record 4 7" "fst registered" sample_keymap 5000 "[]"]
  by (simp add: record_event_callback_def send_event_to_dart_def fl_ops Let_def
        sample_record_def sample_bytes_def read_int16_def word_cat_eq registered_def
        input_capture_plugin_register_with_registrar_def input_capture_plugin_init_def)

subsection \<open>Unrecognised records\<close>

text \<open>
  Claim C8. A record whose event type is none of the five the record decoder handles,
  and a mouse message that is none of the nine the mouse hook handles, sends nothing:
  the channel, respectively the deliveries, are as before (the mouse hook passes the
  message on). Neither procedure writes to the plugin object or touches a capture
  resource, and the next record is handled as if the unrecognised one had not come.
\<close>

theorem unrecognised_records_are_dropped:
  "(unat (data d 0 AND 0x7F) \<notin> {KeyPress, KeyRelease, ButtonPress, ButtonRelease, MotionNotify} \<longrightarrow>
      record_event_callback km now self d chan = chan \<and>
      record_event_callback km now' self d' (record_event_callback km now self d chan) =
        record_event_callback km now' self d' chan) \<and>
   (wParam \<notin> {WM_MOUSEMOVE, WM_LBUTTONDOWN, WM_LBUTTONUP, WM_RBUTTONDOWN, WM_RBUTTONUP,
                WM_MBUTTONDOWN, WM_MBUTTONUP, WM_MOUSEWHEEL, WM_MOUSEHWHEEL} \<longrightarrow>
      MouseHookProc ft inst nCode wParam ms delivered = (CallNextHookEx nCode wParam, delivered) \<and>
      MouseHookProc ft' inst nCode' wParam' ms'
          (snd (MouseHookProc ft inst nCode wParam ms delivered)) =
        MouseHookProc ft' inst nCode' wParam' ms' delivered)"
  using unrecognised_record_dropped [of d km now self chan]
    MouseHookProc_unknown [of wParam ft inst nCode ms delivered]
  by simp

theorem unrecognised_records_witness:
  "record_event_callback sample_keymap 5000 (fst registered) (sample_record 33 0) [] = [] \<and>
   record_event_callback sample_keymap 7000 (fst registered) (sample_record 6 0)
       (record_event_callback sample_keymap 5000 (fst registered) (sample_record 33 0) []) =
     [[(''timestamp'', FlInt 7), (''type'', FlString ''mouseMove''), (''x'', FlFloat 120),
       (''y'', FlFloat 340)]] \<and>
   MouseHookProc 0 (Some listening) 0 0x020B sample_point [] = (CallNextHookEx 0 0x020B, []) \<and>
   fst (MouseHookProc 0 (Some listening) 0 WM_MOUSEMOVE sample_point
          (snd (MouseHookProc 0 (Some listening) 0 0x020B sample_point []))) = Return 1"
  using unrecognised_records_are_dropped
          [where d = "sample_record 33 0" and km = sample_keymap and now = 5000 and
             self = "fst registered" and chan = "[]" and now' = 7000 and
             d' = "sample_record 6 0" and wParam = "0x020B" and ft = 0 and
             inst = "Some listening" and nCode = 0 and ms = sample_point and delivered = "[]" and
             ft' = 0 and nCode' = 0 and wParam' = WM_MOUSEMOVE and ms' = sample_point]
  by (simp add: record_event_callback_def send_event_to_dart_def fl_ops Let_def
        sample_record_def sample_bytes_def read_int16_def word_cat_eq registered_def
        input_capture_plugin_register_with_registrar_def input_capture_plugin_init_def
        MouseHookProc_def sink_attached_def instance_SendEvent_def SendEvent_def
        listening_def WinPlugin_init_def)

section \<open>Properties of the sink and the hook procedures\<close>

lemma SendEvent_registered_sink:
  "(event_sink' self = Some sink \<longrightarrow> SendEvent self event delivered = delivered @ [(sink, event)]) \<and>
   (event_sink' self = None \<longrightarrow> SendEvent self event delivered = delivered) \<and>
   event_sink' (OnListenInternal (Some second) (OnListenInternal (Some first) self)) = Some second \<and>
   SendEvent (OnListenInternal (Some second) (OnListenInternal (Some first) self)) event delivered =
     delivered @ [(second, event)] \<and>
   SendEvent (OnCancelInternal self) event delivered = delivered"
  by (simp add: SendEvent_def OnListenInternal_def OnCancelInternal_def)

lemma start_capture_event_handler:
  "event_handler (fst (start_capture env s)) = event_handler (fst s)"
  by (cases s) (simp add: Let_def split: option.splits)

lemma stop_capture_event_handler:
  "event_handler (fst (stop_capture s)) = event_handler (fst s)"
  by (cases s) (simp add: Let_def split: option.splits prod.splits)

lemma run_linux_event_handler:
  "event_handler (fst (run_linux cs s)) = event_handler (fst s)"
proof (induction cs arbitrary: s)
  case Nil
  then show ?case by simp
next
  case (Cons c cs)
  then show ?case
    by (cases c)
       (simp_all add: start_capture_event_handler stop_capture_event_handler
          del: start_capture.simps stop_capture.simps)
qed

lemma registered_plugin_always_sends:
  assumes "handler \<noteq> None"
  shows "send_event_to_dart
           (snd (cancel_cb (snd (listen_cb
              (fst (run_linux cs
                      (input_capture_plugin_register_with_registrar dpy handler, os_init)))))))
           event chan = chan @ [event] \<and>
         send_event_to_dart
           (fst (run_linux cs (input_capture_plugin_register_with_registrar dpy handler, os_init)))
           event chan = chan @ [event]"
  using assms
  by (simp add: send_event_to_dart_def cancel_cb_def listen_cb_def run_linux_event_handler
        input_capture_plugin_register_with_registrar_def)

text \<open>
  Claim C9: sending delivers the event to the registered consumer when there is one and
  is a no-op when there is none, and registering a consumer replaces the previous one.
  The hook platform does this (lemma \<open>SendEvent_registered_sink\<close>): listening stores the
  sink, cancelling clears it, and \<^verbatim>\<open>SendEvent\<close> does nothing without one. The record
  platform does not: its listen and cancel callbacks record nothing, and the test in
  \<^verbatim>\<open>send_event_to_dart\<close> is on the handler pointer that registration sets once. After
  the listener has been cancelled, and equally when none ever attached, the event is
  still sent onto the channel.
\<close>

theorem send_without_listener_on_record_platform:
  "send_event_to_dart (snd (cancel_cb (snd (listen_cb (fst registered)))))
     [(''type'', FlString ''mouseMove'')] [] = [[(''type'', FlString ''mouseMove'')]] \<and>
   send_event_to_dart (fst registered) [(''type'', FlString ''mouseMove'')] [] =
     [[(''type'', FlString ''mouseMove'')]] \<and>
   SendEvent (OnCancelInternal (OnListenInternal (Some 5) WinPlugin_init))
     [(''type'', FlString ''mouseMove'')] [] = [] \<and>
   SendEvent WinPlugin_init [(''type'', FlString ''mouseMove'')] [] = []"
  by (simp add: send_event_to_dart_def cancel_cb_def listen_cb_def registered_def
        input_capture_plugin_register_with_registrar_def input_capture_plugin_init_def
        SendEvent_def OnCancelInternal_def OnListenInternal_def WinPlugin_init_def)

text \<open>
  Claim C10. A hook procedure that does anything other than pass the event on (a return
  value of its own, or a delivery) was called with the instance pointer set and a sink
  attached, returns -1 (keyboard) or 1 (mouse) and delivers one event to that sink.
  With no instance, or an instance without a sink, capture started or not, both
  procedures pass the event on through \<^verbatim>\<open>CallNextHookEx\<close> and deliver nothing. With
  an instance, a sink and a non-negative code the keyboard hook consumes every event
  and the mouse hook every message it handles.
\<close>

theorem hooks_consume_only_with_instance_and_sink:
  "((fst (KeyboardHookProc gaks ft inst nCode wParam kb delivered) \<noteq> CallNextHookEx nCode wParam \<or>
     snd (KeyboardHookProc gaks ft inst nCode wParam kb delivered) \<noteq> delivered) \<longrightarrow>
      (\<exists>self sink event. inst = Some self \<and> event_sink' self = Some sink \<and>
         KeyboardHookProc gaks ft inst nCode wParam kb delivered =
           (Return (- 1), delivered @ [(sink, event)]))) \<and>
   ((fst (MouseHookProc ft inst nCode wParam ms delivered) \<noteq> CallNextHookEx nCode wParam \<or>
     snd (MouseHookProc ft inst nCode wParam ms delivered) \<noteq> delivered) \<longrightarrow>
      (\<exists>self sink event. inst = Some self \<and> event_sink' self = Some sink \<and>
         MouseHookProc ft inst nCode wParam ms delivered =
           (Return 1, delivered @ [(sink, event)]))) \<and>
   ((inst = None \<or> (\<exists>self. inst = Some self \<and> event_sink' self = None)) \<longrightarrow>
      KeyboardHookProc gaks ft inst nCode wParam kb delivered =
        (CallNextHookEx nCode wParam, delivered) \<and>
      MouseHookProc ft inst nCode wParam ms delivered =
        (CallNextHookEx nCode wParam, delivered)) \<and>
   (0 \<le> nCode \<and> inst = Some running \<and> event_sink' running = Some listener \<longrightarrow>
      (\<exists>event. KeyboardHookProc gaks ft inst nCode wParam kb delivered =
                 (Return (- 1), delivered @ [(listener, event)])) \<and>
      (wParam \<in> {WM_MOUSEMOVE, WM_LBUTTONDOWN, WM_LBUTTONUP, WM_RBUTTONDOWN, WM_RBUTTONUP,
                   WM_MBUTTONDOWN, WM_MBUTTONUP, WM_MOUSEWHEEL, WM_MOUSEHWHEEL} \<longrightarrow>
         (\<exists>event. MouseHookProc ft inst nCode wParam ms delivered =
                    (Return 1, delivered @ [(listener, event)]))))"
proof (intro conjI impI)
  assume a: "fst (KeyboardHookProc gaks ft inst nCode wParam kb delivered) \<noteq> CallNextHookEx nCode wParam \<or>
     snd (KeyboardHookProc gaks ft inst nCode wParam kb delivered) \<noteq> delivered"
  have "\<not> (nCode < 0 \<or> \<not> sink_attached inst)"
  proof
    assume "nCode < 0 \<or> \<not> sink_attached inst"
    from KeyboardHookProc_forwards [OF this, of gaks ft wParam kb delivered] a
    show False by simp
  qed
  then obtain self sink where i: "inst = Some self" "event_sink' self = Some sink" and n: "0 \<le> nCode"
    by (auto simp: sink_attached_def split: option.splits)
  from KeyboardHookProc_consumes [OF n i(2), of gaks ft wParam kb delivered] i
  show "\<exists>self sink event. inst = Some self \<and> event_sink' self = Some sink \<and>
         KeyboardHookProc gaks ft inst nCode wParam kb delivered =
           (Return (- 1), delivered @ [(sink, event)])"
    by blast
next
  assume a: "fst (MouseHookProc ft inst nCode wParam ms delivered) \<noteq> CallNextHookEx nCode wParam \<or>
     snd (MouseHookProc ft inst nCode wParam ms delivered) \<noteq> delivered"
  have "\<not> (nCode < 0 \<or> \<not> sink_attached inst)"
  proof
    assume "nCode < 0 \<or> \<not> sink_attached inst"
    from MouseHookProc_forwards [OF this, of ft wParam ms delivered] a
    show False by simp
  qed
  then obtain self sink where i: "inst = Some self" "event_sink' self = Some sink" and n: "0 \<le> nCode"
    by (auto simp: sink_attached_def split: option.splits)
  have w: "wParam \<in> {WM_MOUSEMOVE, WM_LBUTTONDOWN, WM_LBUTTONUP, WM_RBUTTONDOWN, WM_RBUTTONUP,
                   WM_MBUTTONDOWN, WM_MBUTTONUP, WM_MOUSEWHEEL, WM_MOUSEHWHEEL}"
  proof (rule ccontr)
    assume "wParam \<notin> {WM_MOUSEMOVE, WM_LBUTTONDOWN, WM_LBUTTONUP, WM_RBUTTONDOWN, WM_RBUTTONUP,
                   WM_MBUTTONDOWN, WM_MBUTTONUP, WM_MOUSEWHEEL, WM_MOUSEHWHEEL}"
    from MouseHookProc_unknown [OF this, of ft inst nCode ms delivered] a
    show False by simp
  qed
  from MouseHookProc_consumes [OF n i(2) w, of ft ms delivered] i
  show "\<exists>self sink event. inst = Some self \<and> event_sink' self = Some sink \<and>
         MouseHookProc ft inst nCode wParam ms delivered =
           (Return 1, delivered @ [(sink, event)])"
    by blast
next
  assume "inst = None \<or> (\<exists>self. inst = Some self \<and> event_sink' self = None)"
  then have s: "\<not> sink_attached inst" by (auto simp: sink_attached_def)
  then show "KeyboardHookProc gaks ft inst nCode wParam kb delivered =
        (CallNextHookEx nCode wParam, delivered)"
    by (simp add: KeyboardHookProc_forwards)
  from s show "MouseHookProc ft inst nCode wParam ms delivered =
        (CallNextHookEx nCode wParam, delivered)"
    by (simp add: MouseHookProc_forwards)
next
  assume a: "0 \<le> nCode \<and> inst = Some running \<and> event_sink' running = Some listener"
  then have n: "0 \<le> nCode" and i: "inst = Some running" and e: "event_sink' running = Some listener"
    by simp_all
  from KeyboardHookProc_consumes [OF n e, of gaks ft wParam kb delivered] i
  show "\<exists>event. KeyboardHookProc gaks ft inst nCode wParam kb delivered =
                 (Return (- 1), delivered @ [(listener, event)])"
    by blast
  assume w: "wParam \<in> {WM_MOUSEMOVE, WM_LBUTTONDOWN, WM_LBUTTONUP, WM_RBUTTONDOWN, WM_RBUTTONUP,
                   WM_MBUTTONDOWN, WM_MBUTTONUP, WM_MOUSEWHEEL, WM_MOUSEHWHEEL}"
  from MouseHookProc_consumes [OF n e w, of ft ms delivered] i
  show "\<exists>event. MouseHookProc ft inst nCode wParam ms delivered =
                    (Return 1, delivered @ [(listener, event)])"
    by blast
qed

theorem hooks_witness:
  "is_capturing' not_listening \<and> event_sink' not_listening = None \<and>
   KeyboardHookProc no_keys_down 0 (Some not_listening) 0 WM_KEYDOWN \<lparr>vkCode = 0x41\<rparr> [] =
     (CallNextHookEx 0 WM_KEYDOWN, []) \<and>
   MouseHookProc 0 (Some not_listening) 0 WM_MOUSEMOVE sample_point [] =
     (CallNextHookEx 0 WM_MOUSEMOVE, []) \<and>
   KeyboardHookProc no_keys_down 0 None 0 WM_KEYDOWN \<lparr>vkCode = 0x41\<rparr> [] =
     (CallNextHookEx 0 WM_KEYDOWN, []) \<and>
   fst (KeyboardHookProc no_keys_down 0 (Some listening) 0 WM_KEYDOWN \<lparr>vkCode = 0x41\<rparr> []) =
     Return (- 1) \<and>
   map fst (snd (KeyboardHookProc no_keys_down 0 (Some listening) 0 WM_KEYDOWN
                   \<lparr>vkCode = 0x41\<rparr> [])) = [5] \<and>
   MouseHookProc 0 (Some listening) 0 WM_MOUSEMOVE sample_point [] =
     (Return 1,
      [(5, [(''timestamp'', FlInt (GetTimestamp 0)), (''type'', FlString ''mouseMove''),
            (''x'', FlFloat 120), (''y'', FlFloat 340)])])"
  using
    hooks_consume_only_with_instance_and_sink
      [where inst = "Some not_listening" and gaks = no_keys_down and ft = 0 and nCode = 0 and
         wParam = WM_KEYDOWN and kb = "\<lparr>vkCode = 0x41\<rparr>" and ms = sample_point and
         delivered = "[]" and running = not_listening and listener = 5]
    hooks_consume_only_with_instance_and_sink
      [where inst = "Some listening" and gaks = no_keys_down and ft = 0 and nCode = 0 and
         wParam = WM_MOUSEMOVE and kb = "\<lparr>vkCode = 0x41\<rparr>" and ms = sample_point and
         delivered = "[]" and running = listening and listener = 5]
  by (simp add: KeyboardHookProc_def MouseHookProc_def sink_attached_def instance_SendEvent_def
        SendEvent_def fl_ops Let_def listening_def not_listening_def WinPlugin_init_def
        sample_point_def no_keys_down_def)

section \<open>Properties of the key names\<close>

lemma to_string_length: "0 < k \<Longrightarrow> n < 10 ^ k \<Longrightarrow> length (to_string n) \<le> k"
proof (induction k arbitrary: n)
  case 0
  then show ?case by simp
next
  case (Suc k)
  show ?case
  proof (cases "n < 10")
    case True
    then show ?thesis by (simp add: to_string.simps [of n])
  next
    case False
    with Suc.prems have k: "0 < k" by (cases k) auto
    from Suc.prems have "n div 10 < 10 ^ k" by (simp add: less_mult_imp_div_less mult.commute)
    with Suc.IH k have "length (to_string (n div 10)) \<le> k" by blast
    with False show ?thesis by (simp add: to_string.simps [of n])
  qed
qed

lemma from_string_snoc: "from_string (ds @ [c]) = 10 * from_string ds + (of_char c - 48)"
  by (simp add: from_string_def)

lemma digit_char: "d < 10 \<Longrightarrow> of_char (char_of (48 + d)) - 48 = (d::nat)"
  by (simp add: of_char_of)

lemma from_string_to_string: "from_string (to_string n) = n"
proof (induction n rule: to_string.induct)
  case (1 n)
  show ?case
  proof (cases "n < 10")
    case True
    then show ?thesis by (simp add: to_string.simps [of n] from_string_def digit_char)
  next
    case False
    with 1 have "from_string (to_string (n div 10)) = n div 10" by simp
    with False show ?thesis
      by (simp add: to_string.simps [of n] from_string_snoc digit_char)
  qed
qed

lemma to_string_keysym_length: "length (to_string (unat (k::64 word))) \<le> 20"
proof -
  have "unat k < 2 ^ 64" using unsigned_less [of k] by simp
  also have "(2::nat) ^ 64 \<le> 10 ^ 20" by simp
  finally show ?thesis by (intro to_string_length) simp_all
qed

lemma printable_keysym:
  "XK_space \<le> k \<Longrightarrow> k \<le> XK_asciitilde \<Longrightarrow>
     32 \<le> unat k \<and> unat k \<le> 126 \<and> of_char (char_of (unat k)) = unat k"
  by (simp add: word_le_nat_alt of_char_of)

lemma keycode_to_string_printable:
  "XK_space \<le> k \<Longrightarrow> k \<le> XK_asciitilde \<Longrightarrow> keycode_to_string k = [char_of (unat k)]"
  by (simp add: keycode_to_string_def)

lemma keycode_to_string_switch:
  "k \<in> set switch_keysyms \<Longrightarrow> keycode_to_string k \<in> set linux_symbolic_names"
  by (auto simp: switch_keysyms_def keycode_to_string_def linux_symbolic_names_def
        spec_symbolic_names_def)

lemma keycode_to_string_fallback:
  "\<not> (XK_space \<le> k \<and> k \<le> XK_asciitilde) \<Longrightarrow> k \<notin> set switch_keysyms \<Longrightarrow>
     keycode_to_string k = ''Key'' @ to_string (unat k)"
  using to_string_keysym_length [of k] by (simp add: switch_keysyms_def keycode_to_string_def)


lemma VKeyToString_digit:
  "0x30 \<le> v \<Longrightarrow> v \<le> 0x39 \<Longrightarrow>
     VKeyToString v = [char_of (unat v)] \<and> 48 \<le> unat v \<and> unat v \<le> 57 \<and>
     of_char (char_of (unat v)) = unat v"
  by (simp add: VKeyToString_def word_le_nat_alt of_char_of)

lemma VKeyToString_letter:
  assumes "0x41 \<le> v" and "v \<le> 0x5A"
  shows "VKeyToString v = [char_of (unat v + 32)] \<and> 65 \<le> unat v \<and> unat v \<le> 90 \<and>
         of_char (char_of (unat v + 32)) = unat v + 32"
proof -
  from assms have r: "65 \<le> unat v" "unat v \<le> 90" by (simp_all add: word_le_nat_alt)
  then have "unat (v + 32) = unat v + 32" by (simp add: unat_word_ariths)
  moreover from assms have "\<not> (0x30 \<le> v \<and> v \<le> 0x39)" by (simp add: word_le_nat_alt)
  ultimately show ?thesis using assms r by (simp add: VKeyToString_def of_char_of)
qed

lemma VKeyToString_switch:
  "v \<in> set switch_vkeys \<Longrightarrow> VKeyToString v \<in> set windows_symbolic_names"
  by (auto simp: switch_vkeys_def VKeyToString_def windows_symbolic_names_def
        spec_symbolic_names_def)

lemma VKeyToString_fallback:
  "\<not> (0x30 \<le> v \<and> v \<le> 0x39) \<Longrightarrow> \<not> (0x41 \<le> v \<and> v \<le> 0x5A) \<Longrightarrow> v \<notin> set switch_vkeys \<Longrightarrow>
     VKeyToString v = ''Key'' @ to_string (unat v)"
  by (simp add: switch_vkeys_def VKeyToString_def)

lemma char_a: "char_of (97::nat) = CHR ''a''"
  by code_simp

lemma keycode_to_string_named:
  assumes "k \<in> set switch_keysyms" and "k \<noteq> XK_Super_L" and "k \<noteq> XK_Super_R"
  shows "keycode_to_string k \<in> set spec_symbolic_names"
  using assms
  by (auto simp: switch_keysyms_def keycode_to_string_def spec_symbolic_names_def)

lemma VKeyToString_named:
  assumes "v \<in> set switch_vkeys" and "v \<noteq> VK_SPACE"
  shows "VKeyToString v \<in> set spec_symbolic_names"
  using assms
  by (auto simp: switch_vkeys_def VKeyToString_def spec_symbolic_names_def)

text \<open>
  The two name functions on their own: printable codes, the codes of the switch that
  get a listed name, and the fallback, with the digits of the fallback reading back as
  the function's argument.
\<close>

lemma name_functions_per_platform:
  "(XK_space \<le> k \<and> k \<le> XK_asciitilde \<longrightarrow>
      keycode_to_string k = [char_of (unat k)] \<and> 32 \<le> unat k \<and> unat k \<le> 126 \<and>
      of_char (char_of (unat k)) = unat k) \<and>
   (k \<in> set switch_keysyms \<and> k \<noteq> XK_Super_L \<and> k \<noteq> XK_Super_R \<longrightarrow>
      keycode_to_string k \<in> set spec_symbolic_names) \<and>
   (\<not> (XK_space \<le> k \<and> k \<le> XK_asciitilde) \<and> k \<notin> set switch_keysyms \<longrightarrow>
      keycode_to_string k = ''Key'' @ to_string (unat k) \<and>
      from_string (drop 3 (keycode_to_string k)) = unat k) \<and>
   keycode_to_string 0x61 = ''a'' \<and>
   (0x30 \<le> v \<and> v \<le> 0x39 \<longrightarrow>
      VKeyToString v = [char_of (unat v)] \<and> 48 \<le> unat v \<and> unat v \<le> 57 \<and>
      of_char (char_of (unat v)) = unat v) \<and>
   (0x41 \<le> v \<and> v \<le> 0x5A \<longrightarrow>
      VKeyToString v = [char_of (unat v + 32)] \<and> 65 \<le> unat v \<and> unat v \<le> 90 \<and>
      of_char (char_of (unat v + 32)) = unat v + 32) \<and>
   (v \<in> set switch_vkeys \<and> v \<noteq> VK_SPACE \<longrightarrow> VKeyToString v \<in> set spec_symbolic_names) \<and>
   (\<not> (0x30 \<le> v \<and> v \<le> 0x39) \<and> \<not> (0x41 \<le> v \<and> v \<le> 0x5A) \<and> v \<notin> set switch_vkeys \<longrightarrow>
      VKeyToString v = ''Key'' @ to_string (unat v) \<and>
      from_string (drop 3 (VKeyToString v)) = unat v) \<and>
   VKeyToString 0x41 = ''a''"
proof (intro conjI impI)
  show "keycode_to_string 0x61 = ''a''"
    by (simp add: keycode_to_string_def char_a)
  show "VKeyToString 0x41 = ''a''"
    by (simp add: VKeyToString_def char_a)
qed (use keycode_to_string_printable [of k] printable_keysym [of k] keycode_to_string_named [of k]
       keycode_to_string_fallback [of k] VKeyToString_digit [of v] VKeyToString_letter [of v]
       VKeyToString_named [of v] VKeyToString_fallback [of v] from_string_to_string
     in simp_all)

lemma sint_small_vkCode:
  fixes v :: DWORD
  assumes "v < 0x80000000"
  shows "sint v = int (unat v)"
proof -
  from assms have "uint v < 2 ^ 31" by (simp add: word_less_def)
  moreover have "- (2 ^ 31) \<le> uint v"
  proof -
    have "- (2 ^ 31) \<le> (0::int)" by simp
    also have "0 \<le> uint v" by simp
    finally show ?thesis .
  qed
  ultimately have "signed_take_bit 31 (uint v) = uint v"
    by (rule signed_take_bit_int_eq_self [rotated])
  then show ?thesis by (simp add: sint_uint)
qed

lemma key_record_key_fields:
  assumes "category d = XRecordFromServer"
    and "unat (data d 0 AND 0x7F) = KeyPress \<or> unat (data d 0 AND 0x7F) = KeyRelease"
    and "event_handler self \<noteq> None"
  shows "\<exists>event.
           record_event_callback km now self d chan = chan @ [event] \<and>
           field_of event ''keyCode'' = Some (FlInt (uint (data d 1))) \<and>
           field_of event ''key'' = Some (FlString (keycode_to_string (km (data d 1))))"
proof -
  from key_record_decoded [OF assms, of km now chan] obtain modifiers where
    "record_event_callback km now self d chan =
       chan @ [[(''timestamp'', FlInt (int (now div 1000))),
                (''type'', FlString (if unat (data d 0 AND 0x7F) = KeyPress
                                     then ''keyDown'' else ''keyUp'')),
                (''keyCode'', FlInt (uint (data d 1))),
                (''key'', FlString (keycode_to_string (km (data d 1)))),
                (''modifiers'', FlList modifiers)]]"
    by blast
  then show ?thesis by (simp add: field_of_def)
qed

lemma key_record_key_fields_only:
  assumes "category d = XRecordFromServer"
    and "unat (data d 0 AND 0x7F) = KeyPress \<or> unat (data d 0 AND 0x7F) = KeyRelease"
    and "event_handler self \<noteq> None"
  shows "key_fields (record_event_callback km now self d []) =
           [Some (FlString (keycode_to_string (km (data d 1))))]"
proof -
  from key_record_key_fields [OF assms, of km now "[]"] obtain event where
    "record_event_callback km now self d [] = [event]"
    "field_of event ''key'' = Some (FlString (keycode_to_string (km (data d 1))))"
    by auto
  then show ?thesis by (simp add: key_fields_def)
qed

lemma KeyboardHookProc_key_fields:
  assumes "0 \<le> nCode" and "event_sink' self = Some sink"
  shows "\<exists>event.
           KeyboardHookProc gaks ft (Some self) nCode wParam kb delivered =
             (Return (- 1), delivered @ [(sink, event)]) \<and>
           field_of event ''keyCode'' = Some (FlInt (sint (vkCode kb))) \<and>
           field_of event ''key'' = Some (FlString (VKeyToString (vkCode kb)))"
proof -
  from KeyboardHookProc_consumes [OF assms, of gaks ft wParam kb delivered] obtain modifiers where
    "KeyboardHookProc gaks ft (Some self) nCode wParam kb delivered =
       (Return (- 1),
        delivered @
          [(sink, [(''timestamp'', FlInt (GetTimestamp ft)),
                   (''type'', FlString (if wParam = WM_KEYDOWN \<or> wParam = WM_SYSKEYDOWN
                                        then ''keyDown'' else ''keyUp'')),
                   (''keyCode'', FlInt (sint (vkCode kb))),
                   (''key'', FlString (VKeyToString (vkCode kb))),
                   (''modifiers'', FlList modifiers)])])"
    by blast
  then show ?thesis by (simp add: field_of_def)
qed

lemma KeyboardHookProc_key_fields_only:
  assumes "0 \<le> nCode" and "event_sink' self = Some sink"
  shows "key_fields (map snd (snd (KeyboardHookProc gaks ft (Some self) nCode wParam kb []))) =
           [Some (FlString (VKeyToString (vkCode kb)))]"
proof -
  from KeyboardHookProc_key_fields [OF assms, of gaks ft wParam kb "[]"] obtain event where
    "KeyboardHookProc gaks ft (Some self) nCode wParam kb [] = (Return (- 1), [(sink, event)])"
    "field_of event ''key'' = Some (FlString (VKeyToString (vkCode kb)))"
    by auto
  then show ?thesis by (simp add: key_fields_def)
qed

text \<open>
  Claim C6, as stated: in every decoded key event the \<open>key\<close> field is one printable
  character, one of the listed symbolic names, or a fallback that embeds the raw code,
  and the code for ASCII \<open>a\<close> gives \<open>a\<close>. Four decoded events say otherwise. On the
  record platform the left Super key (key code 133 under the sample mapping) is named
  \<open>Super\<close>, which is not in the list, and the key codes 99 and 100, which the mapping
  leaves without a keysym, are both named \<open>Key0\<close>, which embeds neither. On the hook
  platform the space bar is named \<open>Space\<close>, and the code \<open>0x61\<close> of ASCII \<open>a\<close> is a
  virtual-key code that is not the letter key and gets the fallback \<open>Key97\<close>.
\<close>

theorem decoded_key_names_counterexample:
  "record_event_callback sample_keymap 5000 (fst registered) (sample_record 2 133) [] =
     [[(''timestamp'', FlInt 5), (''type'', FlString ''keyDown''), (''keyCode'', FlInt 133),
       (''key'', FlString ''Super''), (''modifiers'', FlList [FlString ''shift''])]] \<and>
   \<not> spec_key_shape 133 ''Super'' \<and>
   record_event_callback sample_keymap 5000 (fst registered) (sample_record 2 99) [] =
     [[(''timestamp'', FlInt 5), (''type'', FlString ''keyDown''), (''keyCode'', FlInt 99),
       (''key'', FlString ''Key0''), (''modifiers'', FlList [FlString ''shift''])]] \<and>
   record_event_callback sample_keymap 5000 (fst registered) (sample_record 2 100) [] =
     [[(''timestamp'', FlInt 5), (''type'', FlString ''keyDown''), (''keyCode'', FlInt 100),
       (''key'', FlString ''Key0''), (''modifiers'', FlList [FlString ''shift''])]] \<and>
   \<not> spec_key_shape 99 ''Key0'' \<and> \<not> spec_key_shape 100 ''Key0'' \<and>
   KeyboardHookProc no_keys_down 0 (Some listening) 0 WM_KEYDOWN \<lparr>vkCode = VK_SPACE\<rparr> [] =
     (Return (- 1),
      [(5, [(''timestamp'', FlInt (GetTimestamp 0)), (''type'', FlString ''keyDown''),
            (''keyCode'', FlInt 32), (''key'', FlString ''Space''),
            (''modifiers'', FlList [])])]) \<and>
   \<not> spec_key_shape 32 ''Space'' \<and>
   KeyboardHookProc no_keys_down 0 (Some listening) 0 WM_KEYDOWN \<lparr>vkCode = 0x61\<rparr> [] =
     (Return (- 1),
      [(5, [(''timestamp'', FlInt (GetTimestamp 0)), (''type'', FlString ''keyDown''),
            (''keyCode'', FlInt 97), (''key'', FlString ''Key97''),
            (''modifiers'', FlList [])])])"
proof -
  have t: "to_string 0 = ''0''" "to_string 97 = ''97''" "to_string 99 = ''99''"
    "to_string 100 = ''100''"
    by code_simp+
  show ?thesis
    by (simp add: record_event_callback_def send_event_to_dart_def fl_ops Let_def
          sample_record_def sample_bytes_def sample_keymap_def registered_def
          input_capture_plugin_register_with_registrar_def input_capture_plugin_init_def
          keycode_to_string_def VKeyToString_def t spec_key_shape_def spec_symbolic_names_def
          KeyboardHookProc_def sink_attached_def instance_SendEvent_def SendEvent_def
          listening_def WinPlugin_init_def no_keys_down_def)
qed

text \<open>
  Claim C6, amended. In every decoded key event the \<open>key\<close> field depends only on the
  event's key code (and, on the record platform, the keyboard mapping), so decoding the
  same code again gives the same string. On the hook platform the codes \<open>0x30\<close> to
  \<open>0x39\<close> give the digit and \<open>0x41\<close> to \<open>0x5A\<close> the lower-case letter (the letter key's
  code \<open>0x41\<close> gives \<open>a\<close>), a code of the switch other than the space bar gives one of
  the listed names, and a code in neither range and not in the switch gives \<open>Key\<close>
  followed by the event's \<open>keyCode\<close> in decimal, whose digits read back as the code. On
  the record platform a key code whose keysym is from \<open>0x20\<close> to \<open>0x7e\<close> gives the one
  character with the keysym's code (keysym \<open>0x61\<close> gives \<open>a\<close>), and a key code whose
  keysym is in the switch, the two Super keys apart, gives one of the listed names.
  The names of the space bar and of the Super keys, and the record platform's fallback
  name, are left out.
\<close>

theorem decoded_key_names:
  "(category d = XRecordFromServer \<and>
    (unat (data d 0 AND 0x7F) = KeyPress \<or> unat (data d 0 AND 0x7F) = KeyRelease) \<and>
    event_handler self \<noteq> None \<longrightarrow>
      (\<exists>event.
         record_event_callback km now self d chan = chan @ [event] \<and>
         field_of event ''keyCode'' = Some (FlInt (uint (data d 1))) \<and>
         (XK_space \<le> km (data d 1) \<and> km (data d 1) \<le> XK_asciitilde \<longrightarrow>
            field_of event ''key'' = Some (FlString [char_of (unat (km (data d 1)))]) \<and>
            32 \<le> unat (km (data d 1)) \<and> unat (km (data d 1)) \<le> 126 \<and>
            of_char (char_of (unat (km (data d 1)))) = unat (km (data d 1))) \<and>
         (km (data d 1) = 0x61 \<longrightarrow> field_of event ''key'' = Some (FlString ''a'')) \<and>
         (km (data d 1) \<in> set switch_keysyms \<and> km (data d 1) \<noteq> XK_Super_L \<and>
          km (data d 1) \<noteq> XK_Super_R \<longrightarrow>
            (\<exists>name. field_of event ''key'' = Some (FlString name) \<and>
                    name \<in> set spec_symbolic_names))) \<and>
      (category d' = XRecordFromServer \<and>
       (unat (data d' 0 AND 0x7F) = KeyPress \<or> unat (data d' 0 AND 0x7F) = KeyRelease) \<and>
       data d' 1 = data d 1 \<longrightarrow>
         key_fields (record_event_callback km now' self d' []) =
           key_fields (record_event_callback km now self d []))) \<and>
   (0 \<le> nCode \<and> event_sink' running = Some sink \<longrightarrow>
      (\<exists>event.
         KeyboardHookProc gaks ft (Some running) nCode wParam kb delivered =
           (Return (- 1), delivered @ [(sink, event)]) \<and>
         field_of event ''keyCode'' = Some (FlInt (sint (vkCode kb))) \<and>
         (vkCode kb < 0x80000000 \<longrightarrow> sint (vkCode kb) = int (unat (vkCode kb))) \<and>
         (0x30 \<le> vkCode kb \<and> vkCode kb \<le> 0x39 \<longrightarrow>
            field_of event ''key'' = Some (FlString [char_of (unat (vkCode kb))]) \<and>
            48 \<le> unat (vkCode kb) \<and> unat (vkCode kb) \<le> 57 \<and>
            of_char (char_of (unat (vkCode kb))) = unat (vkCode kb)) \<and>
         (0x41 \<le> vkCode kb \<and> vkCode kb \<le> 0x5A \<longrightarrow>
            field_of event ''key'' = Some (FlString [char_of (unat (vkCode kb) + 32)]) \<and>
            65 \<le> unat (vkCode kb) \<and> unat (vkCode kb) \<le> 90 \<and>
            of_char (char_of (unat (vkCode kb) + 32)) = unat (vkCode kb) + 32) \<and>
         (vkCode kb = 0x41 \<longrightarrow> field_of event ''key'' = Some (FlString ''a'')) \<and>
         (vkCode kb \<in> set switch_vkeys \<and> vkCode kb \<noteq> VK_SPACE \<longrightarrow>
            (\<exists>name. field_of event ''key'' = Some (FlString name) \<and>
                    name \<in> set spec_symbolic_names)) \<and>
         (\<not> (0x30 \<le> vkCode kb \<and> vkCode kb \<le> 0x39) \<and>
          \<not> (0x41 \<le> vkCode kb \<and> vkCode kb \<le> 0x5A) \<and> vkCode kb \<notin> set switch_vkeys \<longrightarrow>
            field_of event ''key'' = Some (FlString (''Key'' @ to_string (unat (vkCode kb)))) \<and>
            from_string (to_string (unat (vkCode kb))) = unat (vkCode kb))) \<and>
      (vkCode kb' = vkCode kb \<longrightarrow>
         key_fields (map snd (snd (KeyboardHookProc gaks' ft' (Some running) nCode wParam' kb' []))) =
           key_fields (map snd (snd (KeyboardHookProc gaks ft (Some running) nCode wParam kb [])))))"
proof (intro conjI impI)
  assume a: "category d = XRecordFromServer \<and>
    (unat (data d 0 AND 0x7F) = KeyPress \<or> unat (data d 0 AND 0x7F) = KeyRelease) \<and>
    event_handler self \<noteq> None"
  then have a1: "category d = XRecordFromServer"
    and a2: "unat (data d 0 AND 0x7F) = KeyPress \<or> unat (data d 0 AND 0x7F) = KeyRelease"
    and a3: "event_handler self \<noteq> None"
    by simp_all
  from key_record_key_fields [OF a1 a2 a3, of km now chan] obtain event where
    e: "record_event_callback km now self d chan = chan @ [event]"
      "field_of event ''keyCode'' = Some (FlInt (uint (data d 1)))"
      "field_of event ''key'' = Some (FlString (keycode_to_string (km (data d 1))))"
    by blast
  show "\<exists>event.
         record_event_callback km now self d chan = chan @ [event] \<and>
         field_of event ''keyCode'' = Some (FlInt (uint (data d 1))) \<and>
         (XK_space \<le> km (data d 1) \<and> km (data d 1) \<le> XK_asciitilde \<longrightarrow>
            field_of event ''key'' = Some (FlString [char_of (unat (km (data d 1)))]) \<and>
            32 \<le> unat (km (data d 1)) \<and> unat (km (data d 1)) \<le> 126 \<and>
            of_char (char_of (unat (km (data d 1)))) = unat (km (data d 1))) \<and>
         (km (data d 1) = 0x61 \<longrightarrow> field_of event ''key'' = Some (FlString ''a'')) \<and>
         (km (data d 1) \<in> set switch_keysyms \<and> km (data d 1) \<noteq> XK_Super_L \<and>
          km (data d 1) \<noteq> XK_Super_R \<longrightarrow>
            (\<exists>name. field_of event ''key'' = Some (FlString name) \<and>
                    name \<in> set spec_symbolic_names))"
  proof (intro exI [of _ event] conjI impI)
    assume "km (data d 1) = 0x61"
    then show "field_of event ''key'' = Some (FlString ''a'')"
      using e(3) name_functions_per_platform [of "km (data d 1)" 0] by simp
  next
    assume "km (data d 1) \<in> set switch_keysyms \<and> km (data d 1) \<noteq> XK_Super_L \<and>
          km (data d 1) \<noteq> XK_Super_R"
    then show "\<exists>name. field_of event ''key'' = Some (FlString name) \<and>
                    name \<in> set spec_symbolic_names"
      using e(3) keycode_to_string_named [of "km (data d 1)"] by simp
  qed (use e printable_keysym [of "km (data d 1)"] keycode_to_string_printable [of "km (data d 1)"]
       in simp_all)
  assume b: "category d' = XRecordFromServer \<and>
       (unat (data d' 0 AND 0x7F) = KeyPress \<or> unat (data d' 0 AND 0x7F) = KeyRelease) \<and>
       data d' 1 = data d 1"
  then have b1: "category d' = XRecordFromServer"
    and b2: "unat (data d' 0 AND 0x7F) = KeyPress \<or> unat (data d' 0 AND 0x7F) = KeyRelease"
    and b3: "data d' 1 = data d 1"
    by simp_all
  show "key_fields (record_event_callback km now' self d' []) =
           key_fields (record_event_callback km now self d [])"
    unfolding key_record_key_fields_only [OF a1 a2 a3]
      key_record_key_fields_only [OF b1 b2 a3] b3 ..
next
  assume a: "0 \<le> nCode \<and> event_sink' running = Some sink"
  then have a1: "0 \<le> nCode" and a2: "event_sink' running = Some sink" by simp_all
  from KeyboardHookProc_key_fields [OF a1 a2, of gaks ft wParam kb delivered] obtain event where
    e: "KeyboardHookProc gaks ft (Some running) nCode wParam kb delivered =
           (Return (- 1), delivered @ [(sink, event)])"
      "field_of event ''keyCode'' = Some (FlInt (sint (vkCode kb)))"
      "field_of event ''key'' = Some (FlString (VKeyToString (vkCode kb)))"
    by blast
  show "\<exists>event.
         KeyboardHookProc gaks ft (Some running) nCode wParam kb delivered =
           (Return (- 1), delivered @ [(sink, event)]) \<and>
         field_of event ''keyCode'' = Some (FlInt (sint (vkCode kb))) \<and>
         (vkCode kb < 0x80000000 \<longrightarrow> sint (vkCode kb) = int (unat (vkCode kb))) \<and>
         (0x30 \<le> vkCode kb \<and> vkCode kb \<le> 0x39 \<longrightarrow>
            field_of event ''key'' = Some (FlString [char_of (unat (vkCode kb))]) \<and>
            48 \<le> unat (vkCode kb) \<and> unat (vkCode kb) \<le> 57 \<and>
            of_char (char_of (unat (vkCode kb))) = unat (vkCode kb)) \<and>
         (0x41 \<le> vkCode kb \<and> vkCode kb \<le> 0x5A \<longrightarrow>
            field_of event ''key'' = Some (FlString [char_of (unat (vkCode kb) + 32)]) \<and>
            65 \<le> unat (vkCode kb) \<and> unat (vkCode kb) \<le> 90 \<and>
            of_char (char_of (unat (vkCode kb) + 32)) = unat (vkCode kb) + 32) \<and>
         (vkCode kb = 0x41 \<longrightarrow> field_of event ''key'' = Some (FlString ''a'')) \<and>
         (vkCode kb \<in> set switch_vkeys \<and> vkCode kb \<noteq> VK_SPACE \<longrightarrow>
            (\<exists>name. field_of event ''key'' = Some (FlString name) \<and>
                    name \<in> set spec_symbolic_names)) \<and>
         (\<not> (0x30 \<le> vkCode kb \<and> vkCode kb \<le> 0x39) \<and>
          \<not> (0x41 \<le> vkCode kb \<and> vkCode kb \<le> 0x5A) \<and> vkCode kb \<notin> set switch_vkeys \<longrightarrow>
            field_of event ''key'' = Some (FlString (''Key'' @ to_string (unat (vkCode kb)))) \<and>
            from_string (to_string (unat (vkCode kb))) = unat (vkCode kb))"
  proof (intro exI [of _ event] conjI impI)
    assume "vkCode kb < 0x80000000"
    then show "sint (vkCode kb) = int (unat (vkCode kb))" by (rule sint_small_vkCode)
  next
    assume "vkCode kb = 0x41"
    then show "field_of event ''key'' = Some (FlString ''a'')"
      using e(3) name_functions_per_platform [of 0 "vkCode kb"] by simp
  next
    assume "vkCode kb \<in> set switch_vkeys \<and> vkCode kb \<noteq> VK_SPACE"
    then show "\<exists>name. field_of event ''key'' = Some (FlString name) \<and>
                    name \<in> set spec_symbolic_names"
      using e(3) VKeyToString_named [of "vkCode kb"] by simp
  qed (use e VKeyToString_digit [of "vkCode kb"] VKeyToString_letter [of "vkCode kb"]
         VKeyToString_fallback [of "vkCode kb"] from_string_to_string
       in simp_all)
  assume c: "vkCode kb' = vkCode kb"
  show "key_fields (map snd (snd (KeyboardHookProc gaks' ft' (Some running) nCode wParam' kb' []))) =
           key_fields (map snd (snd (KeyboardHookProc gaks ft (Some running) nCode wParam kb [])))"
    unfolding KeyboardHookProc_key_fields_only [OF a1 a2] c ..
qed

theorem decoded_key_names_witness:
  "record_event_callback sample_keymap 5000 (fst registered) (sample_record 2 38) [] =
     [[(''timestamp'', FlInt 5), (''type'', FlString ''keyDown''), (''keyCode'', FlInt 38),
       (''key'', FlString ''a''), (''modifiers'', FlList [FlString ''shift''])]] \<and>
   key_fields (record_event_callback sample_keymap 7000 (fst registered) (sample_record 3 38) []) =
     [Some (FlString ''a'')] \<and>
   key_fields (record_event_callback sample_keymap 5000 (fst registered) (sample_record 2 36) []) =
     [Some (FlString ''Return'')] \<and>
   ''Return'' \<in> set spec_symbolic_names \<and>
   key_fields (map snd (snd (KeyboardHookProc no_keys_down 0 (Some listening) 0 WM_KEYDOWN
                               \<lparr>vkCode = 0x41\<rparr> []))) = [Some (FlString ''a'')] \<and>
   key_fields (map snd (snd (KeyboardHookProc no_keys_down 0 (Some listening) 0 WM_KEYDOWN
                               \<lparr>vkCode = 0x35\<rparr> []))) = [Some (FlString ''5'')] \<and>
   key_fields (map snd (snd (KeyboardHookProc no_keys_down 0 (Some listening) 0 WM_KEYDOWN
                               \<lparr>vkCode = VK_LWIN\<rparr> []))) = [Some (FlString ''Meta'')] \<and>
   ''Meta'' \<in> set spec_symbolic_names \<and>
   key_fields (map snd (snd (KeyboardHookProc no_keys_down 0 (Some listening) 0 WM_KEYDOWN
                               \<lparr>vkCode = 0x61\<rparr> []))) = [Some (FlString ''Key97'')] \<and>
   from_string ''97'' = 97"
proof -
  have t: "to_string 97 = ''97''" "char_of (53::nat) = CHR ''5''"
    by code_simp+
  show ?thesis
    using
      decoded_key_names
        [where d = "sample_record 2 38" and self = "fst registered" and km = sample_keymap and
           now = 5000 and chan = "[]" and d' = "sample_record 3 38" and now' = 7000 and
           nCode = 0 and running = listening and sink = 5 and gaks = no_keys_down and ft = 0 and
           wParam = WM_KEYDOWN and kb = "\<lparr>vkCode = 0x41\<rparr>" and delivered = "[]" and
           kb' = "\<lparr>vkCode = 0x41\<rparr>" and gaks' = no_keys_down and ft' = 0 and
           wParam' = WM_KEYDOWN]
      decoded_key_names
        [where d = "sample_record 2 36" and self = "fst registered" and km = sample_keymap and
           now = 5000 and chan = "[]" and d' = "sample_record 3 36" and now' = 7000 and
           nCode = 0 and running = listening and sink = 5 and gaks = no_keys_down and ft = 0 and
           wParam = WM_KEYDOWN and kb = "\<lparr>vkCode = 0x61\<rparr>" and delivered = "[]" and
           kb' = "\<lparr>vkCode = 0x61\<rparr>" and gaks' = no_keys_down and ft' = 0 and
           wParam' = WM_KEYDOWN]
    by (simp add: record_event_callback_def send_event_to_dart_def fl_ops Let_def key_fields_def
          sample_record_def sample_bytes_def sample_keymap_def registered_def
          input_capture_plugin_register_with_registrar_def input_capture_plugin_init_def
          keycode_to_string_def VKeyToString_def t char_a spec_symbolic_names_def
          from_string_def switch_keysyms_def switch_vkeys_def
          KeyboardHookProc_def sink_attached_def instance_SendEvent_def SendEvent_def
          listening_def WinPlugin_init_def no_keys_down_def)
qed

end
